theory Spec2Isabelle
  imports Main "HOL-Library.AList"
begin

section \<open>The search query builder (queryBuilder.ts)\<close>

text \<open>
  A shallow embedding of \<^verbatim>\<open>src/vs/workbench/parts/search/common/queryBuilder.ts\<close>.

  \<^item> A JavaScript string is a \<open>string\<close> (a list of code units); the backslash is
    \<open>CHR 0x5C\<close>.
  \<^item> An \<open>IExpression\<close> (a plain object used as a map from glob pattern to
    \<open>true\<close>, \<open>false\<close> or a sibling clause) is an association list in the order
    \<open>Object.keys\<close> enumerates it: assigning to a present key keeps its place, assigning to
    a new key appends (\<open>AList.update\<close>); reading a key is \<open>map_of\<close>. Keys that
    are array indices, which \<open>Object.keys\<close> enumerates before the others, are not
    treated apart: the theorems speak of the set of keys and of the value under a key.
  \<^item> \<open>undefined\<close> is \<open>None\<close>.
  \<^item> A thrown exception is the left summand of \<open>error + 'a\<close>.
  \<^item> The services injected into the class and the functions imported from other
    modules are the fields of one record \<open>env\<close>; the type of URIs is the parameter
    \<open>'u\<close>.
  \<^item> The method \<open>text\<close> and its helpers \<open>isCaseSensitive\<close> and \<open>isMultiline\<close>
    are left out: they add fields to the result of \<open>commonQuery\<close> and no property
    below depends on them.
\<close>

subsection \<open>Data model\<close>

datatype IExpressionValue = BoolValue bool | SiblingClause string

type_synonym IExpression = "(string \<times> IExpressionValue) list"

text \<open>JavaScript truthiness of the value stored under a key (an object is truthy).\<close>

fun truthy :: "IExpressionValue \<Rightarrow> bool" where
  "truthy (BoolValue b) = b"
| "truthy (SiblingClause w) = True"

datatype error =
    SearchPathNotFoundError string  \<comment> \<open>\<open>new Error(localize(..., searchPathRoot))\<close>\<close>
  | TypeError                       \<comment> \<open>reading a property of \<open>undefined\<close>\<close>

datatype WorkbenchState = EMPTY | FOLDER | WORKSPACE

datatype QueryType = File | Text

record 'u ISearchPathPattern =
  searchPath :: 'u
  pattern :: "string option"

text \<open>The field \<open>pattern\<close> of \<open>ISearchPathsResult\<close> is \<open>pattern_expr\<close> here, since
  \<open>ISearchPathPattern\<close> has a field of the same name.\<close>

record 'u ISearchPathsResult =
  searchPaths :: "'u ISearchPathPattern list option"
  pattern_expr :: "IExpression option"

text \<open>The fields of the option records carry the prefix \<open>opt_\<close>, those of a folder
  query that clash with the query's own carry \<open>fq_\<close>.\<close>

record 'u ICommonQueryBuilderOptions =
  opt_excludePattern :: "string option"
  opt_includePattern :: "string option"
  opt_extraFileResources :: "'u list option"
  opt_maxResults :: "nat option"
  opt_useRipgrep :: "bool option"
  opt_disregardIgnoreFiles :: "bool option"
  opt_disregardGlobalIgnoreFiles :: "bool option"
  opt_disregardExcludeSettings :: "bool option"
  opt_ignoreSymlinks :: "bool option"

record 'u IFileQueryBuilderOptions = "'u ICommonQueryBuilderOptions" +
  opt_filePattern :: "string option"
  opt_exists :: "bool option"
  opt_sortByScore :: "bool option"
  opt_cacheKey :: "string option"

record 'u IFolderQuery =
  folder :: 'u
  fq_includePattern :: "IExpression option"
  fq_excludePattern :: "IExpression option"
  fileEncoding :: "string option"
  disregardIgnoreFiles :: "bool option"
  disregardGlobalIgnoreFiles :: "bool option"
  ignoreSymlinks :: "bool option"

record 'u ICommonQueryProps =
  folderQueries :: "'u IFolderQuery list"
  usingSearchPaths :: bool
  extraFileResources :: "'u list option"
  excludePattern :: "IExpression option"
  includePattern :: "IExpression option"
  maxResults :: "nat option"
  useRipgrep :: bool

record 'u IFileQuery = "'u ICommonQueryProps" +
  queryType :: QueryType
  filePattern :: "string option"
  exists :: "bool option"
  sortByScore :: "bool option"
  cacheKey :: "string option"

record ISearchConfigurationProperties =
  search_useRipgrep :: bool
  search_useIgnoreFiles :: bool
  search_useGlobalIgnoreFiles :: bool
  search_followSymlinks :: bool

record IFilesConfiguration =
  encoding :: "string option"

record ISearchConfiguration =
  search :: ISearchConfigurationProperties
  files :: "IFilesConfiguration option"

record 'u IWorkspaceFolder =
  name :: string
  uri :: 'u

text \<open>
  The collaborators. None of them is defined in queryBuilder.ts, so each is a parameter:
  \<open>paths.isAbsolute\<close>, \<open>paths.normalize\<close>, \<open>paths.join\<close>, \<open>uri.file\<close>,
  \<open>resources.joinPath\<close>, \<open>uri.toString()\<close>, \<open>uri.fsPath\<close>, \<open>untildify\<close>,
  \<open>glob.splitGlobAware\<close>, \<open>getExcludes\<close>, \<open>pathIncludedInQuery\<close>,
  \<open>configurationService.getValue({ resource })\<close>,
  \<open>workspaceContextService.getWorkbenchState()\<close>,
  \<open>workspaceContextService.getWorkspace().folders\<close> and
  \<open>environmentService.userHome\<close>.
\<close>

record 'u env =
  paths_isAbsolute :: "string \<Rightarrow> bool"
  paths_normalize :: "string \<Rightarrow> string"
  paths_join :: "string \<Rightarrow> string \<Rightarrow> string"
  uri_file :: "string \<Rightarrow> 'u"
  resources_joinPath :: "'u \<Rightarrow> string \<Rightarrow> 'u"
  uri_toString :: "'u \<Rightarrow> string"
  uri_fsPath :: "'u \<Rightarrow> string"
  untildify :: "string \<Rightarrow> string \<Rightarrow> string"
  glob_splitGlobAware :: "string option \<Rightarrow> string \<Rightarrow> string list"
  getExcludes :: "ISearchConfiguration \<Rightarrow> IExpression option"
  pathIncludedInQuery :: "'u ICommonQueryProps \<Rightarrow> string \<Rightarrow> bool"
  getValue :: "'u \<Rightarrow> ISearchConfiguration"
  getWorkbenchState :: WorkbenchState
  folders :: "'u IWorkspaceFolder list"
  userHome :: string

subsection \<open>Characters and regular expressions of the source\<close>

text \<open>The class \<open>[\*\{\}\(\)\[\]\?]\<close>.\<close>

definition isGlobChar :: "char \<Rightarrow> bool" where
  "isGlobChar c = (c \<in> set ''*{}()[]?'')"

text \<open>The class \<open>[\/\\]\<close>.\<close>

definition isSlash :: "char \<Rightarrow> bool" where
  "isSlash c = (c = CHR ''/'' \<or> c = CHR 0x5C)"

text \<open>The class \<open>[/|\\]\<close> of \<open>splitGlobFromPath\<close>: inside the brackets the bar is a
  literal character.\<close>

definition isSlashOrBar :: "char \<Rightarrow> bool" where
  "isSlashOrBar c = (c = CHR ''/'' \<or> c = CHR ''|'' \<or> c = CHR 0x5C)"

text \<open>The characters that \<open>.\<close> does not match (line feed and carriage return; the
  separators U+2028 and U+2029 are not code units of \<open>char\<close>).\<close>

definition isLineTerminator :: "char \<Rightarrow> bool" where
  "isLineTerminator c = (c = CHR 0x0A \<or> c = CHR 0x0D)"

text \<open>White space and line terminators removed by \<open>String.prototype.trim\<close>, among the
  code units of \<open>char\<close>: tab, line feed, vertical tab, form feed, carriage return, space
  and the no-break space U+00A0 (U+FEFF, U+2028, U+2029 and the other Unicode spaces are
  not code units of \<open>char\<close>).\<close>

definition isWhiteSpace :: "char \<Rightarrow> bool" where
  "isWhiteSpace c =
     (c \<in> {CHR 0x09, CHR 0x0A, CHR 0x0B, CHR 0x0C, CHR 0x0D, CHR 0x20, CHR 0xA0})"

definition trim :: "string \<Rightarrow> string" where
  "trim s = rev (dropWhile isWhiteSpace (rev (dropWhile isWhiteSpace s)))"

text \<open>\<open>s.match(/[c]/).index\<close> for a one-character class: the index of the first
  character of the class, \<open>None\<close> for \<open>null\<close>.\<close>

fun match_index :: "(char \<Rightarrow> bool) \<Rightarrow> string \<Rightarrow> nat option" where
  "match_index P [] = None"
| "match_index P (c # cs) = (if P c then Some 0 else map_option Suc (match_index P cs))"

text \<open>\<open>s.match(/[/|\\][^/\\]*$/).index\<close>: the leftmost position holding a character of
  \<open>[/|\\]\<close> after which no slash or backslash occurs up to the end.\<close>

fun lastSlashMatch :: "string \<Rightarrow> nat option" where
  "lastSlashMatch [] = None"
| "lastSlashMatch (c # cs) =
     (if isSlashOrBar c \<and> list_all (\<lambda>d. \<not> isSlash d) cs then Some 0
      else map_option Suc (lastSlashMatch cs))"

text \<open>\<open>/\.[\/\\]([^\/\\]+)([\/\\].+)?/\<close> tried at the start of \<open>s\<close>: the two groups.
  Both groups are greedy; the second is \<open>undefined\<close> when a separator followed by at
  least one character other than a line terminator does not come next.\<close>

definition relativeMatchHere :: "string \<Rightarrow> (string \<times> string option) option" where
  "relativeMatchHere s =
     (case s of
        d # sl # rest \<Rightarrow>
          if d = CHR ''.'' \<and> isSlash sl \<and> takeWhile (\<lambda>c. \<not> isSlash c) rest \<noteq> [] then
            Some (takeWhile (\<lambda>c. \<not> isSlash c) rest,
              (case dropWhile (\<lambda>c. \<not> isSlash c) rest of
                 [] \<Rightarrow> None
               | sl2 # after \<Rightarrow>
                   if takeWhile (\<lambda>c. \<not> isLineTerminator c) after \<noteq> []
                   then Some (sl2 # takeWhile (\<lambda>c. \<not> isLineTerminator c) after)
                   else None))
          else None
      | _ \<Rightarrow> None)"

text \<open>\<open>searchPath.match(/\.[\/\\]([^\/\\]+)([\/\\].+)?/)\<close>: the expression has no
  \<open>^\<close>, so the match is searched from every position, left to right.\<close>

fun relativeSearchPathMatch :: "string \<Rightarrow> (string \<times> string option) option" where
  "relativeSearchPathMatch [] = None"
| "relativeSearchPathMatch (c # cs) =
     (case relativeMatchHere (c # cs) of
        Some m \<Rightarrow> Some m
      | None \<Rightarrow> relativeSearchPathMatch cs)"

text \<open>\<open>/^\.\.?[\/\\]/.test(segment)\<close>.\<close>

definition startsWithDotSlash :: "string \<Rightarrow> bool" where
  "startsWithDotSlash segment =
     (case segment of
        d # c # rest \<Rightarrow>
          d = CHR ''.'' \<and>
          (isSlash c \<or> (c = CHR ''.'' \<and> (case rest of [] \<Rightarrow> False | e # _ \<Rightarrow> isSlash e)))
      | _ \<Rightarrow> False)"

text \<open>\<open>p.replace(/\*\*\/\*\*/g, '**')\<close>: one pass from left to right; after a
  replacement the search goes on behind the replaced text.\<close>

fun replace_globstars :: "string \<Rightarrow> string" where
  "replace_globstars [] = []"
| "replace_globstars (c # cs) =
     (if take 5 (c # cs) = ''**/**'' then ''**'' @ replace_globstars (drop 4 cs)
      else c # replace_globstars cs)"

subsection \<open>Helpers imported from other modules\<close>

text \<open>Modelled from the spec: \<open>objects.mixin\<close> (vs/base/common/objects) is not part of
  the source file. The spec describes it as the union of the keys in which the right-hand
  value wins on a conflict; the keys of the source are visited in their order.\<close>

definition mixin :: "IExpression \<Rightarrow> IExpression \<Rightarrow> IExpression" where
  "mixin destination source =
     foldl (\<lambda>d key. case map_of source key of
                      Some v \<Rightarrow> AList.update key v d
                    | None \<Rightarrow> d)
       destination (map fst source)"

text \<open>Modelled from the spec: \<open>arrays.uniqueFilter\<close> (vs/base/common/arrays) is not part
  of the source file. The spec describes the filter built from it as keeping the first
  element of every key and dropping each later element whose key was seen before;
  \<open>seen\<close> is the set of keys met so far.\<close>

fun uniqueFilter :: "('a \<Rightarrow> string) \<Rightarrow> string list \<Rightarrow> 'a list \<Rightarrow> 'a list" where
  "uniqueFilter keyFn seen [] = []"
| "uniqueFilter keyFn seen (x # xs) =
     (if keyFn x \<in> set seen then uniqueFilter keyFn seen xs
      else x # uniqueFilter keyFn (keyFn x # seen) xs)"

text \<open>\<open>xs.map(f)\<close> for an \<open>f\<close> that may throw: the elements are mapped in order and
  the first exception ends the whole call.\<close>

fun map_throwing :: "('a \<Rightarrow> error + 'b) \<Rightarrow> 'a list \<Rightarrow> error + 'b list" where
  "map_throwing f [] = Inr []"
| "map_throwing f (x # xs) =
     (case f x of
        Inl e \<Rightarrow> Inl e
      | Inr y \<Rightarrow> (case map_throwing f xs of Inl e \<Rightarrow> Inl e | Inr ys \<Rightarrow> Inr (y # ys)))"

subsection \<open>The module-level functions\<close>

record splitResult =
  pathPortion :: string
  globPortion :: "string option"

definition splitGlobFromPath :: "string \<Rightarrow> splitResult" where
  "splitGlobFromPath sp =
     (case match_index isGlobChar sp of
        Some globCharIdx \<Rightarrow>
          (case lastSlashMatch (take globCharIdx sp) of
             Some idx \<Rightarrow>
               \<lparr>pathPortion =
                  (if \<not> list_ex isSlash (take idx sp) then take idx sp @ ''/''
                   else take idx sp),
                globPortion = Some (drop (idx + 1) sp)\<rparr>
           | None \<Rightarrow> \<lparr>pathPortion = sp, globPortion = None\<rparr>)
      | None \<Rightarrow> \<lparr>pathPortion = sp, globPortion = None\<rparr>)"

definition patternListToIExpression :: "string list \<Rightarrow> IExpression option" where
  "patternListToIExpression patterns =
     (if patterns \<noteq> []
      then Some (foldl (\<lambda>glob cur. AList.update cur (BoolValue True) glob) [] patterns)
      else None)"

definition splitGlobPattern :: "'u env \<Rightarrow> string option \<Rightarrow> string list" where
  "splitGlobPattern env p =
     filter (\<lambda>s. s \<noteq> []) (map trim (glob_splitGlobAware env p '',''))"

definition expandGlobalGlob :: "string \<Rightarrow> string list" where
  "expandGlobalGlob p =
     map replace_globstars [''**/'' @ p @ ''/**'', ''**/'' @ p]"


subsection \<open>The methods of the class\<close>

text \<open>The test \<open>isSearchPath\<close> of \<open>parseSearchPaths\<close>.\<close>

definition isSearchPath :: "'u env \<Rightarrow> string \<Rightarrow> bool" where
  "isSearchPath env segment = (paths_isAbsolute env segment \<or> startsWithDotSlash segment)"

definition expandAbsoluteSearchPaths :: "'u env \<Rightarrow> string \<Rightarrow> error + 'u list" where
  "expandAbsoluteSearchPaths env sp =
     (if paths_isAbsolute env sp then Inr [uri_file env (paths_normalize env sp)]
      else if getWorkbenchState env = FOLDER then
        (case folders env of
           [] \<Rightarrow> Inl TypeError
         | f # _ \<Rightarrow> Inr [resources_joinPath env (uri f) sp])
      else if sp = ''./'' then Inr []
      else
        (case relativeSearchPathMatch sp of
           Some (searchPathRoot, rest) \<Rightarrow>
             (let matchingRoots = filter (\<lambda>f. name f = searchPathRoot) (folders env)
              in if matchingRoots \<noteq> [] then
                   Inr (map (\<lambda>root. case rest of
                                      Some r \<Rightarrow> resources_joinPath env (uri root) r
                                    | None \<Rightarrow> uri root) matchingRoots)
                 else Inl (SearchPathNotFoundError searchPathRoot))
         | None \<Rightarrow> Inr []))"

text \<open>The function mapped over the search paths in \<open>expandSearchPathPatterns\<close>.\<close>

definition expandOneSearchPath :: "'u env \<Rightarrow> string \<Rightarrow> error + 'u ISearchPathPattern list" where
  "expandOneSearchPath env sp =
     (case expandAbsoluteSearchPaths env (pathPortion (splitGlobFromPath sp)) of
        Inl e \<Rightarrow> Inl e
      | Inr pathPortions \<Rightarrow>
          Inr (map (\<lambda>u. \<lparr>searchPath = u, pattern = globPortion (splitGlobFromPath sp)\<rparr>)
                 pathPortions))"

text \<open>\<open>arrays.flatten(searchPaths.map(...))\<close>, the list before the filter.\<close>

definition flattenedSearchPathPatterns ::
  "'u env \<Rightarrow> string list \<Rightarrow> error + 'u ISearchPathPattern list" where
  "flattenedSearchPathPatterns env sps =
     (case map_throwing (expandOneSearchPath env) sps of
        Inl e \<Rightarrow> Inl e
      | Inr xss \<Rightarrow> Inr (concat xss))"

text \<open>The argument is \<open>groups.searchPaths\<close>, which is \<open>undefined\<close> when no segment is
  a search path; the empty list stands for it (both take the first branch).\<close>

definition expandSearchPathPatterns ::
  "'u env \<Rightarrow> string list \<Rightarrow> error + 'u ISearchPathPattern list" where
  "expandSearchPathPatterns env sps =
     (if getWorkbenchState env = EMPTY \<or> sps = [] then Inr []
      else
        (case flattenedSearchPathPatterns env sps of
           Inl e \<Rightarrow> Inl e
         | Inr searchPathPatterns \<Rightarrow>
             Inr (uniqueFilter (\<lambda>p. uri_toString env (searchPath p)) [] searchPathPatterns)))"

text \<open>The segments of \<open>parseSearchPaths\<close> after \<open>untildify\<close>, and the two groups of
  \<open>collections.groupBy\<close> (each keeps the order of the segments).\<close>

definition segments :: "'u env \<Rightarrow> string option \<Rightarrow> string list" where
  "segments env p = map (\<lambda>segment. untildify env segment (userHome env)) (splitGlobPattern env p)"

definition groups_searchPaths :: "'u env \<Rightarrow> string option \<Rightarrow> string list" where
  "groups_searchPaths env p = filter (isSearchPath env) (segments env p)"

definition groups_exprSegments :: "'u env \<Rightarrow> string option \<Rightarrow> string list" where
  "groups_exprSegments env p = filter (\<lambda>s. \<not> isSearchPath env s) (segments env p)"

definition exprSegments :: "'u env \<Rightarrow> string option \<Rightarrow> string list" where
  "exprSegments env p =
     concat (map (\<lambda>s. expandGlobalGlob (case s of
                                          [] \<Rightarrow> s
                                        | c # _ \<Rightarrow> if c = CHR ''.'' then CHR ''*'' # s else s))
               (groups_exprSegments env p))"

definition parseSearchPaths :: "'u env \<Rightarrow> string option \<Rightarrow> error + 'u ISearchPathsResult" where
  "parseSearchPaths env p =
     (case expandSearchPathPatterns env (groups_searchPaths env p) of
        Inl e \<Rightarrow> Inl e
      | Inr sps \<Rightarrow>
          Inr \<lparr>searchPaths = (if sps \<noteq> [] then Some sps else None),
               pattern_expr = patternListToIExpression (exprSegments env p)\<rparr>)"

text \<open>The key that \<open>parseExcludePattern\<close> writes for one search path; an empty
  \<open>pattern\<close> is falsy like an absent one.\<close>

definition excludePath :: "'u env \<Rightarrow> 'u ISearchPathPattern \<Rightarrow> string" where
  "excludePath env sp =
     (case pattern sp of
        Some g \<Rightarrow>
          if g \<noteq> [] then paths_join env (uri_fsPath env (searchPath sp)) g
          else uri_fsPath env (searchPath sp)
      | None \<Rightarrow> uri_fsPath env (searchPath sp))"

definition parseExcludePattern :: "'u env \<Rightarrow> string option \<Rightarrow> error + IExpression option" where
  "parseExcludePattern env p =
     (case parseSearchPaths env p of
        Inl e \<Rightarrow> Inl e
      | Inr result \<Rightarrow>
          (let excludeExpression0 =
                 (case pattern_expr result of Some g \<Rightarrow> mixin [] g | None \<Rightarrow> []);
               excludeExpression =
                 (case searchPaths result of
                    Some sps \<Rightarrow>
                      foldl (\<lambda>ex sp. AList.update (excludePath env sp) (BoolValue True) ex)
                        excludeExpression0 sps
                  | None \<Rightarrow> excludeExpression0)
           in Inr (if excludeExpression \<noteq> [] then Some excludeExpression else None)))"

definition getAbsoluteIExpression :: "'u env \<Rightarrow> IExpression \<Rightarrow> string \<Rightarrow> IExpression" where
  "getAbsoluteIExpression env expr root =
     foldl (\<lambda>absExpr key.
              case map_of expr key of
                Some v \<Rightarrow>
                  if truthy v \<and> \<not> paths_isAbsolute env key
                  then AList.update (paths_join env root key) v absExpr
                  else absExpr
              | None \<Rightarrow> absExpr)
       [] (map fst expr)"

definition mergedExcludes :: "'u env \<Rightarrow> 'u IFolderQuery list \<Rightarrow> IExpression" where
  "mergedExcludes env fqs =
     foldl (\<lambda>merged fq.
              case fq_excludePattern fq of
                Some ex \<Rightarrow>
                  mixin merged (getAbsoluteIExpression env ex (uri_fsPath env (folder fq)))
              | None \<Rightarrow> merged)
       [] fqs"

definition mergeExcludesFromFolderQueries ::
  "'u env \<Rightarrow> 'u IFolderQuery list \<Rightarrow> IExpression option" where
  "mergeExcludesFromFolderQueries env fqs =
     (if mergedExcludes env fqs \<noteq> [] then Some (mergedExcludes env fqs) else None)"

definition getExcludesForFolder ::
  "'u env \<Rightarrow> ISearchConfiguration \<Rightarrow> 'u ICommonQueryBuilderOptions \<Rightarrow> IExpression option" where
  "getExcludesForFolder env folderConfig options =
     (if opt_disregardExcludeSettings options = Some True then None
      else getExcludes env folderConfig)"

text \<open>\<open>folderConfig.files && folderConfig.files.encoding\<close>.\<close>

definition files_encoding :: "ISearchConfiguration \<Rightarrow> string option" where
  "files_encoding folderConfig =
     (case files folderConfig of Some f \<Rightarrow> encoding f | None \<Rightarrow> None)"

definition getFolderQueryForSearchPath :: "'u env \<Rightarrow> 'u ISearchPathPattern \<Rightarrow> 'u IFolderQuery" where
  "getFolderQueryForSearchPath env sp =
     \<lparr>folder = searchPath sp,
      fq_includePattern =
        (case pattern sp of
           Some g \<Rightarrow> if g \<noteq> [] then patternListToIExpression [g] else None
         | None \<Rightarrow> None),
      fq_excludePattern = None,
      fileEncoding = files_encoding (getValue env (searchPath sp)),
      disregardIgnoreFiles = None,
      disregardGlobalIgnoreFiles = None,
      ignoreSymlinks = None\<rparr>"

definition getFolderQueryForRoot ::
  "'u env \<Rightarrow> 'u \<Rightarrow> 'u ICommonQueryBuilderOptions \<Rightarrow> 'u IFolderQuery" where
  "getFolderQueryForRoot env f options =
     (let folderConfig = getValue env f in
      \<lparr>folder = f,
       fq_includePattern = None,
       fq_excludePattern = getExcludesForFolder env folderConfig options,
       fileEncoding = files_encoding folderConfig,
       disregardIgnoreFiles =
         (case opt_disregardIgnoreFiles options of
            Some b \<Rightarrow> Some b
          | None \<Rightarrow> Some (\<not> search_useIgnoreFiles (search folderConfig))),
       disregardGlobalIgnoreFiles =
         (case opt_disregardGlobalIgnoreFiles options of
            Some b \<Rightarrow> Some b
          | None \<Rightarrow> Some (\<not> search_useGlobalIgnoreFiles (search folderConfig))),
       ignoreSymlinks =
         (case opt_ignoreSymlinks options of
            Some b \<Rightarrow> Some b
          | None \<Rightarrow> Some (\<not> search_followSymlinks (search folderConfig)))\<rparr>)"

text \<open>The default \<open>{}\<close> of the parameter \<open>options\<close> of \<open>commonQuery\<close>.\<close>

definition emptyOptions :: "'u ICommonQueryBuilderOptions" where
  "emptyOptions =
     \<lparr>opt_excludePattern = None, opt_includePattern = None, opt_extraFileResources = None,
      opt_maxResults = None, opt_useRipgrep = None, opt_disregardIgnoreFiles = None,
      opt_disregardGlobalIgnoreFiles = None, opt_disregardExcludeSettings = None,
      opt_ignoreSymlinks = None\<rparr>"

text \<open>The folder queries and the exclude pattern after the block
  \<open>if (searchPaths && searchPaths.length) { ... }\<close> of \<open>commonQuery\<close>.\<close>

definition folderQueriesAndExcludes ::
  "'u env \<Rightarrow> 'u IFolderQuery list option \<Rightarrow> 'u ISearchPathPattern list option \<Rightarrow>
   IExpression option \<Rightarrow> 'u IFolderQuery list option \<times> IExpression option" where
  "folderQueriesAndExcludes env folderQueries0 sps excludePattern0 =
     (case sps of
        None \<Rightarrow> (folderQueries0, excludePattern0)
      | Some l \<Rightarrow>
          if l \<noteq> [] then
            (let allRootExcludes =
                   (case folderQueries0 of
                      Some fqs \<Rightarrow> mergeExcludesFromFolderQueries env fqs
                    | None \<Rightarrow> None)
             in (Some (map (getFolderQueryForSearchPath env) l),
                 (case allRootExcludes of
                    Some a \<Rightarrow>
                      Some (mixin (case excludePattern0 of Some ex \<Rightarrow> ex | None \<Rightarrow> []) a)
                  | None \<Rightarrow> excludePattern0)))
          else (folderQueries0, excludePattern0))"

definition commonQuery ::
  "'u env \<Rightarrow> 'u list option \<Rightarrow> 'u ICommonQueryBuilderOptions option \<Rightarrow>
   error + 'u ICommonQueryProps" where
  "commonQuery env folderResources options0 =
     (let options = (case options0 of Some opts \<Rightarrow> opts | None \<Rightarrow> emptyOptions) in
      case parseSearchPaths env (opt_includePattern options) of
        Inl e \<Rightarrow> Inl e
      | Inr result \<Rightarrow>
          (case parseExcludePattern env (opt_excludePattern options) of
             Inl e \<Rightarrow> Inl e
           | Inr excludePattern0 \<Rightarrow>
               (let fqex = folderQueriesAndExcludes env
                             (map_option (map (\<lambda>f. getFolderQueryForRoot env f options))
                                folderResources)
                             (searchPaths result) excludePattern0;
                    queryProps =
                      \<lparr>folderQueries = (case fst fqex of Some l \<Rightarrow> l | None \<Rightarrow> []),
                       usingSearchPaths =
                         (case searchPaths result of Some l \<Rightarrow> l \<noteq> [] | None \<Rightarrow> False),
                       extraFileResources = opt_extraFileResources options,
                       excludePattern = snd fqex,
                       includePattern = pattern_expr result,
                       maxResults = opt_maxResults options,
                       useRipgrep =
                         (case folderResources of
                            None \<Rightarrow> True
                          | Some frs \<Rightarrow>
                              list_all (\<lambda>f. search_useRipgrep (search (getValue env f))) frs)\<rparr>;
                    extraFiles =
                      map_option
                        (filter (\<lambda>extraFile.
                           pathIncludedInQuery env queryProps (uri_fsPath env extraFile)))
                        (opt_extraFileResources options)
                in Inr (queryProps\<lparr>extraFileResources :=
                          (case extraFiles of
                             Some l \<Rightarrow> if l \<noteq> [] then Some l else None
                           | None \<Rightarrow> None)\<rparr>))))"

text \<open>\<open>file\<close>: \<open>commonQuery\<close> runs first, with its own default for \<open>options\<close>; the
  object literal then reads \<open>options.filePattern\<close> from the caller's argument.\<close>

definition "file" ::
  "'u env \<Rightarrow> 'u list option \<Rightarrow> 'u IFileQueryBuilderOptions option \<Rightarrow> error + 'u IFileQuery" where
  "file env folderResources options =
     (case commonQuery env folderResources
             (map_option ICommonQueryBuilderOptions.truncate options) of
        Inl e \<Rightarrow> Inl e
      | Inr q \<Rightarrow>
          (case options of
             None \<Rightarrow> Inl TypeError
           | Some opts \<Rightarrow>
               Inr (ICommonQueryProps.extend q
                     (IFileQuery.fields File
                        (case opt_filePattern opts of
                           Some fp \<Rightarrow> if fp \<noteq> [] then Some (trim fp) else Some fp
                         | None \<Rightarrow> None)
                        (opt_exists opts) (opt_sortByScore opts) (opt_cacheKey opts)))))"


subsection \<open>A concrete environment\<close>

text \<open>An instance of the collaborators on which the model can be evaluated: a URI is a
  POSIX path, a path is absolute when it starts with a slash, joining puts a slash in
  between, and every folder has the same configuration and the exclude setting \<open>ex\<close>.\<close>

fun split_on :: "char \<Rightarrow> string \<Rightarrow> string list" where
  "split_on c [] = [] # []"
| "split_on c (x # xs) =
     (if x = c then [] # split_on c xs
      else (case split_on c xs of [] \<Rightarrow> [x] # [] | y # ys \<Rightarrow> (x # y) # ys))"

definition sample_config :: ISearchConfiguration where
  "sample_config =
     \<lparr>search = \<lparr>search_useRipgrep = True, search_useIgnoreFiles = True,
                search_useGlobalIgnoreFiles = True, search_followSymlinks = True\<rparr>,
      files = None\<rparr>"

definition sample_env ::
  "WorkbenchState \<Rightarrow> string IWorkspaceFolder list \<Rightarrow> IExpression option \<Rightarrow> string env" where
  "sample_env st fs ex =
     \<lparr>paths_isAbsolute = (\<lambda>p. case p of [] \<Rightarrow> False | c # _ \<Rightarrow> c = CHR ''/''),
      paths_normalize = (\<lambda>p. p),
      paths_join = (\<lambda>a b. a @ ''/'' @ b),
      uri_file = (\<lambda>p. p),
      resources_joinPath = (\<lambda>u p. u @ ''/'' @ p),
      uri_toString = (\<lambda>u. ''file://'' @ u),
      uri_fsPath = (\<lambda>u. u),
      untildify = (\<lambda>s h. s),
      glob_splitGlobAware = (\<lambda>p c. case p of None \<Rightarrow> [] | Some s \<Rightarrow> split_on (CHR '','') s),
      getExcludes = (\<lambda>c. ex),
      pathIncludedInQuery = (\<lambda>q p. True),
      getValue = (\<lambda>u. sample_config),
      getWorkbenchState = st,
      folders = fs,
      userHome = ''/home/u''\<rparr>"

definition two_folders :: "string IWorkspaceFolder list" where
  "two_folders = [\<lparr>name = ''app'', uri = ''/w/app''\<rparr>, \<lparr>name = ''lib'', uri = ''/w/lib''\<rparr>]"

definition one_folder :: "string IWorkspaceFolder list" where
  "one_folder = [\<lparr>name = ''app'', uri = ''/w/app''\<rparr>]"

subsection \<open>Auxiliary notions for the statements\<close>

text \<open>The keys of an optional expression, as a set; \<open>undefined\<close> has none.\<close>

definition expressionKeys :: "IExpression option \<Rightarrow> string set" where
  "expressionKeys ex = (case ex of None \<Rightarrow> {} | Some e \<Rightarrow> fst ` set e)"

text \<open>The object \<open>excludeExpression\<close> at the end of \<open>parseExcludePattern\<close>, as a function
  of the expanded glob segments and the resolved search paths (equation
  \<open>parseExcludePattern_Inr\<close> below).\<close>

definition excludeExpressionOf ::
  "'u env \<Rightarrow> string list \<Rightarrow> 'u ISearchPathPattern list \<Rightarrow> IExpression" where
  "excludeExpressionOf env xs sps =
     foldl (\<lambda>ex sp. AList.update (excludePath env sp) (BoolValue True) ex)
       (case patternListToIExpression xs of Some g \<Rightarrow> mixin [] g | None \<Rightarrow> []) sps"

text \<open>A folder exclude setting with a relative key, an absolute key and a key switched
  off, and options whose include pattern is the anchor \<open>./src\<close>.\<close>

definition sample_excludes :: IExpression where
  "sample_excludes =
     [(''**/x'', BoolValue True), (''/abs'', BoolValue True), (''off'', BoolValue False)]"

definition sample_options :: "string ICommonQueryBuilderOptions" where
  "sample_options = emptyOptions\<lparr>opt_includePattern := Some ''./src''\<rparr>"

section \<open>Properties\<close>

text \<open>The definitions unfolded when the model is evaluated on a concrete input.\<close>

lemmas sample_defs =
  sample_env_def sample_config_def one_folder_def two_folders_def sample_excludes_def
  sample_options_def emptyOptions_def

lemmas char_class_defs = isGlobChar_def isSlash_def isSlashOrBar_def isWhiteSpace_def

lemmas parse_defs =
  parseSearchPaths_def expandSearchPathPatterns_def flattenedSearchPathPatterns_def
  expandOneSearchPath_def expandAbsoluteSearchPaths_def splitGlobFromPath_def
  groups_searchPaths_def groups_exprSegments_def exprSegments_def segments_def
  splitGlobPattern_def isSearchPath_def startsWithDotSlash_def trim_def
  patternListToIExpression_def expandGlobalGlob_def relativeMatchHere_def

subsection \<open>Splitting an anchor into path and glob tail\<close>

lemma match_index_first:
  "\<forall>x\<in>set pre. \<not> P x \<Longrightarrow> P c \<Longrightarrow> match_index P (pre @ c # post) = Some (length pre)"
  by (induction pre) auto

lemma match_index_none: "\<forall>x\<in>set s. \<not> P x \<Longrightarrow> match_index P s = None"
  by (induction s) auto

lemma isSlash_isSlashOrBar: "isSlash c \<Longrightarrow> isSlashOrBar c"
  by (auto simp: isSlash_def isSlashOrBar_def)

lemma isSlash_not_isGlobChar: "isSlash c \<Longrightarrow> \<not> isGlobChar c"
  by (auto simp: isSlash_def isGlobChar_def)

lemma lastSlashMatch_last:
  "isSlash sep \<Longrightarrow> \<forall>x\<in>set p2. \<not> isSlash x \<Longrightarrow>
   lastSlashMatch (p1 @ sep # p2) = Some (length p1)"
  by (induction p1) (auto simp: isSlash_isSlashOrBar list_all_iff)

text \<open>
  C4, as the code has it. Let the segment be \<open>p1 @ sep # p2 @ c # post\<close>, where \<open>c\<close> is
  its first glob metacharacter and \<open>sep\<close> the last slash or backslash before it. Then the
  path portion is \<open>p1\<close>, the text strictly before that separator (the separator is not
  part of it), with a slash appended when \<open>p1\<close> holds no separator; the glob portion is
  everything after the separator. A segment without a glob metacharacter is its own path
  portion and has no glob portion.
\<close>

theorem splitGlobFromPath_portions:
  "(isGlobChar c \<and> isSlash sep \<and> (\<forall>x\<in>set p1. \<not> isGlobChar x) \<and>
      (\<forall>x\<in>set p2. \<not> isGlobChar x \<and> \<not> isSlash x) \<longrightarrow>
      splitGlobFromPath (p1 @ sep # p2 @ c # post) =
        \<lparr>pathPortion = (if list_ex isSlash p1 then p1 else p1 @ ''/''),
         globPortion = Some (p2 @ c # post)\<rparr>) \<and>
   ((\<forall>x\<in>set s. \<not> isGlobChar x) \<longrightarrow>
      splitGlobFromPath s = \<lparr>pathPortion = s, globPortion = None\<rparr>)"
proof (intro conjI impI)
  assume a: "isGlobChar c \<and> isSlash sep \<and> (\<forall>x\<in>set p1. \<not> isGlobChar x) \<and>
      (\<forall>x\<in>set p2. \<not> isGlobChar x \<and> \<not> isSlash x)"
  let ?pre = "p1 @ sep # p2"
  have pre: "\<forall>x\<in>set ?pre. \<not> isGlobChar x"
    using a by (auto simp: isSlash_not_isGlobChar)
  have "match_index isGlobChar (?pre @ c # post) = Some (length ?pre)"
    using pre a by (intro match_index_first) auto
  then have idx: "match_index isGlobChar (p1 @ sep # p2 @ c # post) = Some (length ?pre)"
    by simp
  have tk: "take (length ?pre) (p1 @ sep # p2 @ c # post) = ?pre"
    by simp
  have ls: "lastSlashMatch ?pre = Some (length p1)"
    using a by (intro lastSlashMatch_last) auto
  show "splitGlobFromPath (p1 @ sep # p2 @ c # post) =
        \<lparr>pathPortion = (if list_ex isSlash p1 then p1 else p1 @ ''/''),
         globPortion = Some (p2 @ c # post)\<rparr>"
    unfolding splitGlobFromPath_def idx option.case tk ls by simp
next
  assume "\<forall>x\<in>set s. \<not> isGlobChar x"
  then show "splitGlobFromPath s = \<lparr>pathPortion = s, globPortion = None\<rparr>"
    by (simp add: splitGlobFromPath_def match_index_none)
qed

text \<open>The theorem at \<open>./a/b/*.ts\<close>, at \<open>/*.ts\<close> and at \<open>/home/x/src\<close>.\<close>

theorem splitGlobFromPath_portions_witness:
  "splitGlobFromPath ''./a/b/*.ts'' = \<lparr>pathPortion = ''./a/b'', globPortion = Some ''*.ts''\<rparr> \<and>
   splitGlobFromPath ''/*.ts'' = \<lparr>pathPortion = ''/'', globPortion = Some ''*.ts''\<rparr> \<and>
   splitGlobFromPath ''/home/x/src'' = \<lparr>pathPortion = ''/home/x/src'', globPortion = None\<rparr>"
  using splitGlobFromPath_portions [of "CHR ''*''" "CHR ''/''" "''./a/b''" "[]" "''.ts''" "''/home/x/src''"]
    splitGlobFromPath_portions [of "CHR ''*''" "CHR ''/''" "[]" "[]" "''.ts''" "[]"]
  by (simp add: isGlobChar_def isSlash_def)

text \<open>C4 as stated fails: for \<open>./a/b/*.ts\<close> the path portion is \<open>./a/b\<close>, without the
  separator that precedes the glob, and not \<open>./a/b/\<close>.\<close>

theorem splitGlobFromPath_excludes_separator:
  "splitGlobFromPath ''./a/b/*.ts'' = \<lparr>pathPortion = ''./a/b'', globPortion = Some ''*.ts''\<rparr> \<and>
   pathPortion (splitGlobFromPath ''./a/b/*.ts'') \<noteq> ''./a/b/''"
  by (simp add: splitGlobFromPath_def isGlobChar_def isSlash_def isSlashOrBar_def)

subsection \<open>Expanding a glob segment\<close>

lemma expandGlobalGlob_foo: "expandGlobalGlob ''foo'' = [''**/foo/**'', ''**/foo'']"
  by (simp add: expandGlobalGlob_def)

lemma expandGlobalGlob_bar: "expandGlobalGlob ''**/bar'' = [''**/bar/**'', ''**/bar'']"
  by (simp add: expandGlobalGlob_def)

text \<open>
  C6: \<open>expandGlobalGlob\<close> of \<open>foo\<close> and of \<open>**/bar\<close> is as claimed (the two lemmas
  above), but an output can contain \<open>**/**\<close>. For the segment \<open>**\<close> the first pattern is
  \<open>**/**/**\<close> before the replacement; the single pass replaces its first five characters
  and does not look at the replaced text again, which leaves \<open>**/**\<close>.
\<close>

theorem expandGlobalGlob_double_globstar: "expandGlobalGlob ''**'' = [''**/**'', ''**'']"
  by (simp add: expandGlobalGlob_def)

subsection \<open>Resolving absolute anchors and the anchor \<open>./\<close>\<close>

text \<open>
  C1, as the code has it. An anchor whose path portion is an absolute path resolves, in a
  single-folder and in a multi-folder workspace, to exactly one search path pattern: its
  location is \<open>uri.file(paths.normalize(pathPortion))\<close> and its pattern is the glob
  tail of the anchor. With no workspace open the anchor resolves to nothing. An anchor
  without a glob metacharacter is its own path portion and has no tail.
\<close>

theorem absolute_anchor_resolution:
  "(paths_isAbsolute env (pathPortion (splitGlobFromPath seg)) \<longrightarrow>
      expandSearchPathPatterns env [seg] =
        (if getWorkbenchState env = EMPTY then Inr []
         else Inr [\<lparr>searchPath =
                      uri_file env (paths_normalize env (pathPortion (splitGlobFromPath seg))),
                    pattern = globPortion (splitGlobFromPath seg)\<rparr>])) \<and>
   ((\<forall>c\<in>set seg. \<not> isGlobChar c) \<longrightarrow>
      pathPortion (splitGlobFromPath seg) = seg \<and> globPortion (splitGlobFromPath seg) = None)"
  by (simp add: expandSearchPathPatterns_def flattenedSearchPathPatterns_def
      expandOneSearchPath_def expandAbsoluteSearchPaths_def splitGlobFromPath_def
      match_index_none)

text \<open>
  The theorem at the anchor \<open>/home/x/src\<close> in the three workspace modes.
\<close>

theorem absolute_anchor_resolution_witness:
  "expandSearchPathPatterns (sample_env FOLDER one_folder None) [''/home/x/src''] =
     Inr [\<lparr>searchPath = ''/home/x/src'', pattern = None\<rparr>] \<and>
   expandSearchPathPatterns (sample_env WORKSPACE two_folders None) [''/home/x/src''] =
     Inr [\<lparr>searchPath = ''/home/x/src'', pattern = None\<rparr>] \<and>
   expandSearchPathPatterns (sample_env EMPTY [] None) [''/home/x/src''] = Inr []"
  using absolute_anchor_resolution [of "sample_env FOLDER one_folder None" "''/home/x/src''"]
    absolute_anchor_resolution [of "sample_env WORKSPACE two_folders None" "''/home/x/src''"]
    absolute_anchor_resolution [of "sample_env EMPTY [] None" "''/home/x/src''"]
  by (simp add: sample_env_def isGlobChar_def)

text \<open>
  C1 as stated fails when no workspace is open: the absolute anchor \<open>/home/x/src\<close>
  resolves to no search path pattern at all.
\<close>

theorem absolute_anchor_ignored_without_workspace:
  "paths_isAbsolute (sample_env EMPTY [] None) ''/home/x/src'' \<and>
   getWorkbenchState (sample_env EMPTY [] None) = EMPTY \<and>
   expandSearchPathPatterns (sample_env EMPTY [] None) [''/home/x/src''] = Inr []"
  by (simp add: expandSearchPathPatterns_def sample_env_def)

text \<open>
  C3, as the code has it. The anchor \<open>./\<close> raises no error in either mode. In a
  multi-folder workspace it resolves to nothing; in a single-folder workspace it resolves
  to one search path pattern, the location of the folder joined with \<open>./\<close>, without a
  tail.
\<close>

theorem dot_slash_anchor_resolution:
  "\<not> paths_isAbsolute env ''./'' \<longrightarrow>
     (getWorkbenchState env = WORKSPACE \<longrightarrow> expandSearchPathPatterns env [''./''] = Inr []) \<and>
     (getWorkbenchState env = FOLDER \<and> folders env = f # fs \<longrightarrow>
        expandSearchPathPatterns env [''./''] =
          Inr [\<lparr>searchPath = resources_joinPath env (uri f) ''./'', pattern = None\<rparr>])"
  by (simp add: expandSearchPathPatterns_def flattenedSearchPathPatterns_def
      expandOneSearchPath_def expandAbsoluteSearchPaths_def splitGlobFromPath_def
      isGlobChar_def)

text \<open>
  The theorem in a workspace of two folders and in a workspace of one folder.
\<close>

theorem dot_slash_anchor_resolution_witness:
  "expandSearchPathPatterns (sample_env WORKSPACE two_folders None) [''./''] = Inr [] \<and>
   expandSearchPathPatterns (sample_env FOLDER one_folder None) [''./''] =
     Inr [\<lparr>searchPath = ''/w/app/./'', pattern = None\<rparr>]"
  using dot_slash_anchor_resolution [of "sample_env WORKSPACE two_folders None"]
    dot_slash_anchor_resolution [of "sample_env FOLDER one_folder None"
      "\<lparr>name = ''app'', uri = ''/w/app''\<rparr>" "[]"]
  by (simp add: sample_env_def one_folder_def)

text \<open>
  C3 as stated fails in single-folder mode: the anchor \<open>./\<close> yields one search path
  pattern, not zero.
\<close>

theorem dot_slash_single_folder_one_result:
  "getWorkbenchState (sample_env FOLDER one_folder None) = FOLDER \<and>
   expandSearchPathPatterns (sample_env FOLDER one_folder None) [''./''] =
     Inr [\<lparr>searchPath = ''/w/app/./'', pattern = None\<rparr>]"
  by (simp add: expandSearchPathPatterns_def flattenedSearchPathPatterns_def
      expandOneSearchPath_def expandAbsoluteSearchPaths_def splitGlobFromPath_def
      isGlobChar_def sample_env_def one_folder_def)

subsection \<open>Relative anchors in a multi-folder workspace\<close>

lemma takeWhile_rest:
  "rest = [] \<or> isSlash (hd rest) \<Longrightarrow> takeWhile (\<lambda>c. \<not> isSlash c) rest = []"
  by (cases rest) auto

lemma relativeMatchHere_shape:
  "isSlash sl \<Longrightarrow> nm \<noteq> [] \<Longrightarrow> \<forall>c\<in>set nm. \<not> isSlash c \<Longrightarrow> rest = [] \<or> isSlash (hd rest) \<Longrightarrow>
   \<exists>g. relativeMatchHere (CHR ''.'' # sl # nm @ rest) = Some (nm, g)"
  by (simp add: relativeMatchHere_def takeWhile_rest)

lemma relativeSearchPathMatch_shape:
  "isSlash sl \<Longrightarrow> nm \<noteq> [] \<Longrightarrow> \<forall>c\<in>set nm. \<not> isSlash c \<Longrightarrow> rest = [] \<or> isSlash (hd rest) \<Longrightarrow>
   \<exists>g. relativeSearchPathMatch (CHR ''.'' # sl # nm @ rest) = Some (nm, g)"
  using relativeMatchHere_shape [of sl nm rest] by auto

lemma named_root_not_found:
  assumes "isSlash sl" "nm \<noteq> []" "\<forall>c\<in>set nm. \<not> isSlash c" "rest = [] \<or> isSlash (hd rest)"
    and "\<not> paths_isAbsolute env (CHR ''.'' # sl # nm @ rest)"
    and "getWorkbenchState env = WORKSPACE"
    and "\<forall>f\<in>set (folders env). name f \<noteq> nm"
  shows "expandAbsoluteSearchPaths env (CHR ''.'' # sl # nm @ rest) =
         Inl (SearchPathNotFoundError nm)"
proof -
  obtain g where g: "relativeSearchPathMatch (CHR ''.'' # sl # nm @ rest) = Some (nm, g)"
    using relativeSearchPathMatch_shape [OF assms(1-4)] by blast
  have f: "filter (\<lambda>f. name f = nm) (folders env) = []"
    using assms(7) by (simp add: filter_empty_conv)
  have ne: "CHR ''.'' # sl # nm @ rest \<noteq> ''./''"
    using assms(2) by (cases nm) auto
  show ?thesis
    unfolding expandAbsoluteSearchPaths_def using assms(5,6) ne
    by (simp only: g f if_False Let_def option.case prod.case WorkbenchState.distinct simp_thms)
qed

lemma relativeMatchHere_none:
  "\<not> (\<exists>sl c post. s = CHR ''.'' # sl # c # post \<and> isSlash sl \<and> \<not> isSlash c) \<Longrightarrow>
   relativeMatchHere s = None"
  by (auto simp: relativeMatchHere_def split: list.splits) (metis list.exhaust takeWhile.simps(1) takeWhile.simps(2) list.sel(1))

lemma relativeSearchPathMatch_none:
  "\<not> (\<exists>pre sl c post. s = pre @ CHR ''.'' # sl # c # post \<and> isSlash sl \<and> \<not> isSlash c) \<Longrightarrow>
   relativeSearchPathMatch s = None"
proof (induction s)
  case Nil
  then show ?case by simp
next
  case (Cons a s)
  have h: "relativeMatchHere (a # s) = None"
  proof (rule relativeMatchHere_none, rule notI)
    assume "\<exists>sl c post. a # s = CHR ''.'' # sl # c # post \<and> isSlash sl \<and> \<not> isSlash c"
    then obtain sl c post where "a # s = [] @ CHR ''.'' # sl # c # post \<and> isSlash sl \<and> \<not> isSlash c"
      by auto
    with Cons.prems show False by blast
  qed
  have t: "\<not> (\<exists>pre sl c post. s = pre @ CHR ''.'' # sl # c # post \<and> isSlash sl \<and> \<not> isSlash c)"
  proof
    assume "\<exists>pre sl c post. s = pre @ CHR ''.'' # sl # c # post \<and> isSlash sl \<and> \<not> isSlash c"
    then obtain pre sl c post where "s = pre @ CHR ''.'' # sl # c # post \<and> isSlash sl \<and> \<not> isSlash c"
      by blast
    then have "a # s = (a # pre) @ CHR ''.'' # sl # c # post \<and> isSlash sl \<and> \<not> isSlash c"
      by simp
    with Cons.prems show False by blast
  qed
  show ?case using h Cons.IH [OF t] by simp
qed

lemma malformed_relative_anchor_ignored:
  assumes "\<not> paths_isAbsolute env sp" "getWorkbenchState env = WORKSPACE"
    and "\<not> (\<exists>pre sl c post. sp = pre @ CHR ''.'' # sl # c # post \<and> isSlash sl \<and> \<not> isSlash c)"
  shows "expandAbsoluteSearchPaths env sp = Inr []"
  using assms(1,2) relativeSearchPathMatch_none [OF assms(3)]
  by (simp add: expandAbsoluteSearchPaths_def)

lemma map_throwing_error: "x \<in> set xs \<Longrightarrow> isl (f x) \<Longrightarrow> isl (map_throwing f xs)"
  by (induction xs) (auto split: sum.splits)


lemma expandSearchPathPatterns_error:
  assumes "getWorkbenchState env \<noteq> EMPTY" "seg \<in> set segs" "isl (expandOneSearchPath env seg)"
  shows "isl (expandSearchPathPatterns env segs)"
proof -
  have "isl (map_throwing (expandOneSearchPath env) segs)"
    using assms(2,3) by (rule map_throwing_error)
  then have "isl (flattenedSearchPathPatterns env segs)"
    by (cases "map_throwing (expandOneSearchPath env) segs")
       (simp_all add: flattenedSearchPathPatterns_def)
  moreover have "segs \<noteq> []"
    using assms(2) by auto
  ultimately show ?thesis
    using assms(1)
    by (cases "flattenedSearchPathPatterns env segs") (simp_all add: expandSearchPathPatterns_def)
qed

lemma parseSearchPaths_error:
  "isl (expandSearchPathPatterns env (groups_searchPaths env p)) \<Longrightarrow> isl (parseSearchPaths env p)"
  by (cases "expandSearchPathPatterns env (groups_searchPaths env p)")
     (simp_all add: parseSearchPaths_def)

text \<open>
  The inputs on which the resolver separates a missing named root from a malformed
  anchor. In a multi-folder workspace, a relative path portion that starts with a dot, a
  separator and a name \<open>nm\<close> that no folder of the workspace has (followed by nothing or
  by a separator) makes the resolution throw the error for \<open>nm\<close>, and every parse whose
  search path segments contain an anchor with this path portion fails. A relative path
  portion in which no dot is followed by a separator and a character other than a
  separator, at any position, resolves to nothing and raises no error.
\<close>

lemma relative_anchor_in_multi_root:
  "getWorkbenchState env = WORKSPACE \<longrightarrow>
     (isSlash sl \<and> nm \<noteq> [] \<and> (\<forall>c\<in>set nm. \<not> isSlash c) \<and> (rest = [] \<or> isSlash (hd rest)) \<and>
      \<not> paths_isAbsolute env (CHR ''.'' # sl # nm @ rest) \<and>
      (\<forall>f\<in>set (folders env). name f \<noteq> nm) \<longrightarrow>
        expandAbsoluteSearchPaths env (CHR ''.'' # sl # nm @ rest) =
          Inl (SearchPathNotFoundError nm) \<and>
        (\<forall>p seg. seg \<in> set (groups_searchPaths env p) \<and>
           pathPortion (splitGlobFromPath seg) = CHR ''.'' # sl # nm @ rest \<longrightarrow>
           isl (parseSearchPaths env p))) \<and>
     (\<not> paths_isAbsolute env sp \<and>
      \<not> (\<exists>pre s c post. sp = pre @ CHR ''.'' # s # c # post \<and> isSlash s \<and> \<not> isSlash c) \<longrightarrow>
        expandAbsoluteSearchPaths env sp = Inr [] \<and>
        (\<forall>seg. pathPortion (splitGlobFromPath seg) = sp \<longrightarrow>
           expandSearchPathPatterns env [seg] = Inr []))"
proof (intro impI conjI allI)
  assume ws: "getWorkbenchState env = WORKSPACE"
  assume a: "isSlash sl \<and> nm \<noteq> [] \<and> (\<forall>c\<in>set nm. \<not> isSlash c) \<and> (rest = [] \<or> isSlash (hd rest)) \<and>
      \<not> paths_isAbsolute env (CHR ''.'' # sl # nm @ rest) \<and>
      (\<forall>f\<in>set (folders env). name f \<noteq> nm)"
  then show e: "expandAbsoluteSearchPaths env (CHR ''.'' # sl # nm @ rest) =
          Inl (SearchPathNotFoundError nm)"
    using ws by (intro named_root_not_found) auto
  fix p seg
  assume s: "seg \<in> set (groups_searchPaths env p) \<and>
           pathPortion (splitGlobFromPath seg) = CHR ''.'' # sl # nm @ rest"
  have "isl (expandOneSearchPath env seg)"
    using s e by (simp add: expandOneSearchPath_def)
  with s ws have "isl (expandSearchPathPatterns env (groups_searchPaths env p))"
    by (intro expandSearchPathPatterns_error [of env seg]) auto
  then show "isl (parseSearchPaths env p)"
    by (rule parseSearchPaths_error)
next
  assume ws: "getWorkbenchState env = WORKSPACE"
  assume b: "\<not> paths_isAbsolute env sp \<and>
      \<not> (\<exists>pre s c post. sp = pre @ CHR ''.'' # s # c # post \<and> isSlash s \<and> \<not> isSlash c)"
  then show e: "expandAbsoluteSearchPaths env sp = Inr []"
    using ws by (intro malformed_relative_anchor_ignored) auto
  fix seg
  assume "pathPortion (splitGlobFromPath seg) = sp"
  with e ws show "expandSearchPathPatterns env [seg] = Inr []"
    by (simp add: expandSearchPathPatterns_def flattenedSearchPathPatterns_def
        expandOneSearchPath_def)
qed

text \<open>
  The lemma in a workspace with the folders \<open>app\<close> and \<open>lib\<close>: the anchor
  \<open>./missing/x\<close> throws and fails the parse of \<open>*.ts, ./missing/x\<close>; the anchor
  \<open>.//x\<close> resolves to nothing.
\<close>

lemma relative_anchor_in_multi_root_example:
  "expandAbsoluteSearchPaths (sample_env WORKSPACE two_folders None) ''./missing/x'' =
     Inl (SearchPathNotFoundError ''missing'') \<and>
   isl (parseSearchPaths (sample_env WORKSPACE two_folders None) (Some ''*.ts, ./missing/x'')) \<and>
   expandAbsoluteSearchPaths (sample_env WORKSPACE two_folders None) ''.//x'' = Inr [] \<and>
   expandSearchPathPatterns (sample_env WORKSPACE two_folders None) [''.//x''] = Inr []"
proof -
  let ?E = "sample_env WORKSPACE two_folders None"
  have ws: "getWorkbenchState ?E = WORKSPACE"
    by (simp add: sample_env_def)
  have a: "isSlash (CHR ''/'') \<and> ''missing'' \<noteq> [] \<and> (\<forall>c\<in>set ''missing''. \<not> isSlash c) \<and>
      (''/x'' = [] \<or> isSlash (hd ''/x'')) \<and>
      \<not> paths_isAbsolute ?E (CHR ''.'' # CHR ''/'' # ''missing'' @ ''/x'') \<and>
      (\<forall>f\<in>set (folders ?E). name f \<noteq> ''missing'')"
    by (simp add: isSlash_def sample_env_def two_folders_def)
  have n: "\<not> (\<exists>pre s c post. ''.//x'' = pre @ CHR ''.'' # s # c # post \<and> isSlash s \<and> \<not> isSlash c)"
  proof
    assume "\<exists>pre s c post. ''.//x'' = pre @ CHR ''.'' # s # c # post \<and> isSlash s \<and> \<not> isSlash c"
    then obtain pre s c post where
      eq: "''.//x'' = pre @ CHR ''.'' # s # c # post" and sc: "isSlash s" "\<not> isSlash c"
      by blast
    from eq have "pre = [] \<or> (\<exists>t. pre = CHR ''.'' # t \<and> ''//x'' = t @ CHR ''.'' # s # c # post)"
      by (cases pre) auto
    then show False
    proof
      assume "pre = []"
      with eq sc show False by (auto simp: isSlash_def)
    next
      assume "\<exists>t. pre = CHR ''.'' # t \<and> ''//x'' = t @ CHR ''.'' # s # c # post"
      then obtain t where t: "''//x'' = t @ CHR ''.'' # s # c # post" by blast
      then have "length ''//x'' = length (t @ CHR ''.'' # s # c # post)" by simp
      then have "t = [] \<and> post = []" by simp
      with t show False by simp
    qed
  qed
  have b: "\<not> paths_isAbsolute ?E ''.//x'' \<and>
      \<not> (\<exists>pre s c post. ''.//x'' = pre @ CHR ''.'' # s # c # post \<and> isSlash s \<and> \<not> isSlash c)"
    using n by (simp add: sample_env_def)
  have g: "''./missing/x'' \<in> set (groups_searchPaths ?E (Some ''*.ts, ./missing/x'')) \<and>
      pathPortion (splitGlobFromPath ''./missing/x'') = CHR ''.'' # CHR ''/'' # ''missing'' @ ''/x''"
    by (simp add: parse_defs char_class_defs sample_defs)
  note t = relative_anchor_in_multi_root [of ?E "CHR ''/''" "''missing''" "''/x''" "''.//x''",
      rule_format, OF ws]
  from t have 1: "expandAbsoluteSearchPaths ?E ''./missing/x'' = Inl (SearchPathNotFoundError ''missing'')"
    using a by simp
  from t a g have 2: "isl (parseSearchPaths ?E (Some ''*.ts, ./missing/x''))"
    by blast
  from t b have 3: "expandAbsoluteSearchPaths ?E ''.//x'' = Inr []"
    by blast
  have "pathPortion (splitGlobFromPath ''.//x'') = ''.//x''"
    by (simp add: splitGlobFromPath_def isGlobChar_def)
  with t b have 4: "expandSearchPathPatterns ?E [''.//x''] = Inr []"
    by blast
  from 1 2 3 4 show ?thesis by simp
qed

text \<open>
  C5: a relative anchor that does not have the shape \<open>./name\<close> is to be ignored
  without an error in a multi-folder workspace. The code does not do so for the anchor
  \<open>../foo\<close>: the expression of \<open>expandAbsoluteSearchPaths\<close> has no \<open>^\<close> and finds
  \<open>./foo\<close> at the second character. In a workspace with the folders \<open>app\<close> and
  \<open>lib\<close> the anchor \<open>../foo\<close> fails the whole parse with the error for the missing
  folder \<open>foo\<close>, and the anchor \<open>../lib\<close> resolves to the folder \<open>lib\<close>.
\<close>

theorem parent_relative_anchor_named_root:
  "startsWithDotSlash ''../foo'' \<and>
   relativeSearchPathMatch ''../foo'' = Some (''foo'', None) \<and>
   expandAbsoluteSearchPaths (sample_env WORKSPACE two_folders None) ''../foo'' =
     Inl (SearchPathNotFoundError ''foo'') \<and>
   parseSearchPaths (sample_env WORKSPACE two_folders None) (Some ''../foo'') =
     Inl (SearchPathNotFoundError ''foo'') \<and>
   expandAbsoluteSearchPaths (sample_env WORKSPACE two_folders None) ''../lib'' =
     Inr [''/w/lib'']"
  by (simp add: startsWithDotSlash_def relativeMatchHere_def isSlash_def
      expandAbsoluteSearchPaths_def sample_env_def two_folders_def
      parseSearchPaths_def expandSearchPathPatterns_def flattenedSearchPathPatterns_def
      expandOneSearchPath_def splitGlobFromPath_def isGlobChar_def groups_searchPaths_def
      segments_def splitGlobPattern_def trim_def isWhiteSpace_def isSearchPath_def)

subsection \<open>Keys and values of the expressions built\<close>

lemma set_update_subset: "set (AList.update k v al) \<subseteq> insert (k, v) (set al)"
  by (induction al) auto

lemma foldl_update_keys:
  "fst ` set (foldl (\<lambda>g c. AList.update (kf c) v g) init xs) = fst ` set init \<union> kf ` set xs"
  by (induction xs arbitrary: init) (auto simp: AList.dom_update)

lemma foldl_update_values:
  "\<forall>kv\<in>set init. snd kv = v \<Longrightarrow>
   \<forall>kv\<in>set (foldl (\<lambda>g c. AList.update (kf c) v g) init xs). snd kv = v"
proof (induction xs arbitrary: init)
  case Nil
  then show ?case by simp
next
  case (Cons x xs)
  have "\<forall>kv\<in>set (AList.update (kf x) v init). snd kv = v"
    using Cons.prems set_update_subset [of "kf x" v init] by auto
  from Cons.IH [OF this] show ?case by simp
qed

lemma mixin_fold_keys:
  "\<forall>k\<in>set ks. map_of s k \<noteq> None \<Longrightarrow>
   fst ` set (foldl (\<lambda>d key. case map_of s key of Some v \<Rightarrow> AList.update key v d | None \<Rightarrow> d)
                d ks) = fst ` set d \<union> set ks"
proof (induction ks arbitrary: d)
  case Nil
  then show ?case by simp
next
  case (Cons k ks)
  obtain v where v: "map_of s k = Some v"
    using Cons.prems by auto
  have "fst ` set (foldl (\<lambda>d key. case map_of s key of Some v \<Rightarrow> AList.update key v d | None \<Rightarrow> d)
                (AList.update k v d) ks) = fst ` set (AList.update k v d) \<union> set ks"
    using Cons.prems by (intro Cons.IH) simp
  then show ?case
    using v by (simp add: AList.dom_update)
qed

lemma mixin_keys: "fst ` set (mixin d s) = fst ` set d \<union> fst ` set s"
proof -
  have "\<forall>k\<in>set (map fst s). map_of s k \<noteq> None"
    by (simp add: map_of_eq_None_iff)
  from mixin_fold_keys [OF this] show ?thesis
    by (simp add: mixin_def)
qed

lemma mixin_fold_values:
  "kv \<in> set (foldl (\<lambda>d key. case map_of s key of Some v \<Rightarrow> AList.update key v d | None \<Rightarrow> d)
                d ks) \<Longrightarrow> kv \<in> set d \<or> map_of s (fst kv) = Some (snd kv)"
proof (induction ks arbitrary: d)
  case Nil
  then show ?case by simp
next
  case (Cons k ks)
  show ?case
  proof (cases "map_of s k")
    case None
    with Cons show ?thesis by simp
  next
    case (Some v)
    with Cons.prems have "kv \<in> set (foldl (\<lambda>d key. case map_of s key of Some v \<Rightarrow> AList.update key v d | None \<Rightarrow> d)
                (AList.update k v d) ks)" by simp
    from Cons.IH [OF this] have "kv \<in> set (AList.update k v d) \<or> map_of s (fst kv) = Some (snd kv)" .
    then show ?thesis
      using set_update_subset [of k v d] Some by auto
  qed
qed

lemma mixin_values: "kv \<in> set (mixin d s) \<Longrightarrow> kv \<in> set d \<or> map_of s (fst kv) = Some (snd kv)"
  unfolding mixin_def by (rule mixin_fold_values)

lemma keys_empty_iff: "fst ` set e = {} \<longleftrightarrow> e = []"
  by simp

lemma mixin_nonempty: "s \<noteq> [] \<Longrightarrow> mixin d s \<noteq> []"
proof
  assume "s \<noteq> []" "mixin d s = []"
  then have "fst ` set (mixin d s) = {}" by simp
  then show False using \<open>s \<noteq> []\<close> by (simp add: mixin_keys)
qed

lemma patternList_None: "patternListToIExpression xs = None \<longleftrightarrow> xs = []"
  by (simp add: patternListToIExpression_def)

lemma patternList_Some:
  assumes "patternListToIExpression xs = Some e"
  shows "e \<noteq> [] \<and> fst ` set e = set xs \<and> (\<forall>kv\<in>set e. snd kv = BoolValue True)"
proof -
  have ne: "xs \<noteq> []" and e: "e = foldl (\<lambda>glob cur. AList.update cur (BoolValue True) glob) [] xs"
    using assms by (auto simp: patternListToIExpression_def split: if_splits)
  have k: "fst ` set e = set xs"
    unfolding e using foldl_update_keys [of "\<lambda>c. c" "BoolValue True" "[]" xs] by simp
  have v: "\<forall>kv\<in>set e. snd kv = BoolValue True"
    unfolding e using foldl_update_values [of "[]" "BoolValue True" "\<lambda>c. c" xs] by simp
  from k ne have "e \<noteq> []" by auto
  with k v show ?thesis by simp
qed


subsection \<open>The glob tail of a resolved search path is never empty\<close>

lemma match_index_less: "match_index P s = Some i \<Longrightarrow> i < length s"
  by (induction s arbitrary: i) (auto split: if_splits)

lemma lastSlashMatch_less: "lastSlashMatch s = Some i \<Longrightarrow> i < length s"
  by (induction s arbitrary: i) (auto split: if_splits)

lemma globPortion_nonempty: "globPortion (splitGlobFromPath s) \<noteq> Some []"
proof (cases "match_index isGlobChar s")
  case None
  then show ?thesis by (simp add: splitGlobFromPath_def)
next
  case (Some g)
  then have g: "g < length s" by (rule match_index_less)
  show ?thesis
  proof (cases "lastSlashMatch (take g s)")
    case None
    with Some show ?thesis by (simp add: splitGlobFromPath_def)
  next
    case (Some i)
    then have "i < length (take g s)" by (rule lastSlashMatch_less)
    with g have "i + 1 < length s" by simp
    then have "drop (i + 1) s \<noteq> []" by simp
    with Some \<open>match_index isGlobChar s = Some g\<close> show ?thesis
      by (simp add: splitGlobFromPath_def)
  qed
qed

lemma expandOneSearchPath_tail:
  assumes "expandOneSearchPath env s = Inr ps"
  shows "\<forall>p\<in>set ps. pattern p \<noteq> Some []"
proof (cases "expandAbsoluteSearchPaths env (pathPortion (splitGlobFromPath s))")
  case (Inl e)
  with assms show ?thesis by (simp add: expandOneSearchPath_def)
next
  case (Inr us)
  with assms have "ps = map (\<lambda>u. \<lparr>searchPath = u, pattern = globPortion (splitGlobFromPath s)\<rparr>) us"
    by (simp add: expandOneSearchPath_def)
  then show ?thesis
    using globPortion_nonempty [of s] by auto
qed

lemma map_throwing_Inr:
  "map_throwing f xs = Inr yss \<Longrightarrow> \<forall>ys\<in>set yss. \<exists>x\<in>set xs. f x = Inr ys"
proof (induction xs arbitrary: yss)
  case Nil
  then show ?case by simp
next
  case (Cons x xs)
  from Cons.prems obtain y ys where y: "f x = Inr y" and ys: "map_throwing f xs = Inr ys"
    and yss: "yss = y # ys"
    by (cases "f x"; cases "map_throwing f xs") auto
  from Cons.IH [OF ys] y show ?case
    unfolding yss by auto
qed

lemma uniqueFilter_subset: "set (uniqueFilter k seen xs) \<subseteq> set xs"
  by (induction xs arbitrary: seen) auto

lemma flattened_tail:
  assumes "flattenedSearchPathPatterns env segs = Inr ps"
  shows "\<forall>p\<in>set ps. pattern p \<noteq> Some []"
proof -
  obtain yss where m: "map_throwing (expandOneSearchPath env) segs = Inr yss" and ps: "ps = concat yss"
    using assms unfolding flattenedSearchPathPatterns_def
    by (cases "map_throwing (expandOneSearchPath env) segs") auto
  show ?thesis
  proof
    fix p assume "p \<in> set ps"
    then obtain ys where ys: "ys \<in> set yss" "p \<in> set ys"
      unfolding ps by auto
    then obtain x where "expandOneSearchPath env x = Inr ys"
      using map_throwing_Inr [OF m] by blast
    from expandOneSearchPath_tail [OF this] ys show "pattern p \<noteq> Some []"
      by blast
  qed
qed

lemma resolved_tail_nonempty:
  assumes "expandSearchPathPatterns env segs = Inr sps"
  shows "\<forall>p\<in>set sps. pattern p \<noteq> Some []"
proof (cases "getWorkbenchState env = EMPTY \<or> segs = []")
  case True
  with assms show ?thesis by (simp add: expandSearchPathPatterns_def)
next
  case False
  show ?thesis
  proof (cases "flattenedSearchPathPatterns env segs")
    case (Inl e)
    with assms False show ?thesis by (simp add: expandSearchPathPatterns_def)
  next
    case (Inr ps)
    with assms False
    have s: "sps = uniqueFilter (\<lambda>p. uri_toString env (searchPath p)) [] ps"
      by (simp add: expandSearchPathPatterns_def)
    have "set sps \<subseteq> set ps"
      unfolding s by (rule uniqueFilter_subset)
    with flattened_tail [OF Inr] show ?thesis by auto
  qed
qed

lemma excludePath_tail:
  "pattern sp \<noteq> Some [] \<Longrightarrow>
   excludePath env sp =
     (case pattern sp of
        Some g \<Rightarrow> paths_join env (uri_fsPath env (searchPath sp)) g
      | None \<Rightarrow> uri_fsPath env (searchPath sp))"
  by (simp add: excludePath_def split: option.splits)

subsection \<open>Deduplication of the resolved search paths\<close>

lemma uniqueFilter_not_seen: "x \<in> set (uniqueFilter k seen xs) \<Longrightarrow> k x \<notin> set seen"
proof (induction xs arbitrary: seen)
  case Nil
  then show ?case by simp
next
  case (Cons y ys)
  show ?case
  proof (cases "k y \<in> set seen")
    case True
    with Cons show ?thesis by simp
  next
    case False
    with Cons.prems have "x = y \<or> x \<in> set (uniqueFilter k (k y # seen) ys)" by simp
    then show ?thesis
    proof
      assume "x = y"
      with False show ?thesis by simp
    next
      assume "x \<in> set (uniqueFilter k (k y # seen) ys)"
      from Cons.IH [OF this] show ?thesis by simp
    qed
  qed
qed

lemma uniqueFilter_distinct: "distinct (map k (uniqueFilter k seen xs))"
proof (induction xs arbitrary: seen)
  case Nil
  then show ?case by simp
next
  case (Cons x xs)
  show ?case
  proof (cases "k x \<in> set seen")
    case True
    with Cons.IH show ?thesis by simp
  next
    case False
    have "k x \<notin> k ` set (uniqueFilter k (k x # seen) xs)"
    proof
      assume "k x \<in> k ` set (uniqueFilter k (k x # seen) xs)"
      then obtain y where y: "y \<in> set (uniqueFilter k (k x # seen) xs)" and "k y = k x"
        by auto
      with uniqueFilter_not_seen [OF y] show False by simp
    qed
    with False Cons.IH [of "k x # seen"] show ?thesis by simp
  qed
qed

lemma uniqueFilter_find:
  "find (\<lambda>q. k q = a) (uniqueFilter k seen xs) =
     (if a \<in> set seen then None else find (\<lambda>q. k q = a) xs)"
  by (induction xs arbitrary: seen) auto

text \<open>
  C8. Whenever the resolver returns, the locations in its output are pairwise distinct as
  strings (\<open>toString()\<close>), and for every location the output holds the same pattern as
  the first one with that location in the unfiltered expansion of the segments (taken in
  the order of the segments), tail included; a location that no segment resolves to is in
  neither list.
\<close>

theorem expandSearchPathPatterns_unique_first:
  "\<forall>out. expandSearchPathPatterns env segs = Inr out \<longrightarrow>
     distinct (map (\<lambda>p. uri_toString env (searchPath p)) out) \<and>
     (getWorkbenchState env \<noteq> EMPTY \<longrightarrow>
        (\<exists>expanded. flattenedSearchPathPatterns env segs = Inr expanded \<and>
           (\<forall>loc. find (\<lambda>p. uri_toString env (searchPath p) = loc) out =
                  find (\<lambda>p. uri_toString env (searchPath p) = loc) expanded)))"
proof (intro allI impI)
  fix out
  assume a: "expandSearchPathPatterns env segs = Inr out"
  show "distinct (map (\<lambda>p. uri_toString env (searchPath p)) out) \<and>
     (getWorkbenchState env \<noteq> EMPTY \<longrightarrow>
        (\<exists>expanded. flattenedSearchPathPatterns env segs = Inr expanded \<and>
           (\<forall>loc. find (\<lambda>p. uri_toString env (searchPath p) = loc) out =
                  find (\<lambda>p. uri_toString env (searchPath p) = loc) expanded)))"
  proof (cases "getWorkbenchState env = EMPTY")
    case True
    with a show ?thesis by (simp add: expandSearchPathPatterns_def)
  next
    case ne: False
    show ?thesis
    proof (cases "segs = []")
      case True
      with a ne show ?thesis
        by (simp add: expandSearchPathPatterns_def flattenedSearchPathPatterns_def)
    next
      case False
      show ?thesis
      proof (cases "flattenedSearchPathPatterns env segs")
        case (Inl e)
        with a ne False show ?thesis by (simp add: expandSearchPathPatterns_def)
      next
        case (Inr ps)
        with a ne False
        have out: "out = uniqueFilter (\<lambda>p. uri_toString env (searchPath p)) [] ps"
          by (simp add: expandSearchPathPatterns_def)
        show ?thesis
          unfolding out using Inr ne
          by (simp add: uniqueFilter_distinct uniqueFilter_find)
      qed
    qed
  qed
qed

text \<open>
  The theorem for three anchors that resolve to the same location with the tails
  \<open>*.ts\<close>, none and \<open>**\<close>: the output keeps the first, with the tail \<open>*.ts\<close>.
\<close>

theorem expandSearchPathPatterns_unique_first_witness:
  "expandSearchPathPatterns (sample_env FOLDER one_folder None)
     [''./src/*.ts'', ''/w/app/./src'', ''/w/app/./src/**''] =
     Inr [\<lparr>searchPath = ''/w/app/./src'', pattern = Some ''*.ts''\<rparr>] \<and>
   flattenedSearchPathPatterns (sample_env FOLDER one_folder None)
     [''./src/*.ts'', ''/w/app/./src'', ''/w/app/./src/**''] =
     Inr [\<lparr>searchPath = ''/w/app/./src'', pattern = Some ''*.ts''\<rparr>,
          \<lparr>searchPath = ''/w/app/./src'', pattern = None\<rparr>,
          \<lparr>searchPath = ''/w/app/./src'', pattern = Some ''**''\<rparr>] \<and>
   distinct (map (\<lambda>p. uri_toString (sample_env FOLDER one_folder None) (searchPath p))
     [\<lparr>searchPath = ''/w/app/./src'', pattern = Some ''*.ts''\<rparr>])"
proof -
  let ?E = "sample_env FOLDER one_folder None"
  let ?segs = "[''./src/*.ts'', ''/w/app/./src'', ''/w/app/./src/**'']"
  have f: "flattenedSearchPathPatterns ?E ?segs =
     Inr [\<lparr>searchPath = ''/w/app/./src'', pattern = Some ''*.ts''\<rparr>,
          \<lparr>searchPath = ''/w/app/./src'', pattern = None\<rparr>,
          \<lparr>searchPath = ''/w/app/./src'', pattern = Some ''**''\<rparr>]"
    by (simp add: flattenedSearchPathPatterns_def expandOneSearchPath_def
        expandAbsoluteSearchPaths_def splitGlobFromPath_def isGlobChar_def isSlash_def
        isSlashOrBar_def sample_env_def one_folder_def)
  have e: "expandSearchPathPatterns ?E ?segs =
     Inr [\<lparr>searchPath = ''/w/app/./src'', pattern = Some ''*.ts''\<rparr>]"
    by (simp add: expandSearchPathPatterns_def f) (simp add: sample_env_def)
  from expandSearchPathPatterns_unique_first [of ?E ?segs] e f show ?thesis
    by simp
qed

subsection \<open>The exclude pattern\<close>

lemma parseSearchPaths_Inr:
  assumes "expandSearchPathPatterns env (groups_searchPaths env p) = Inr sps"
  shows "parseSearchPaths env p =
     Inr \<lparr>searchPaths = (if sps \<noteq> [] then Some sps else None),
          pattern_expr = patternListToIExpression (exprSegments env p)\<rparr>"
  using assms by (simp add: parseSearchPaths_def)

lemma parseSearchPaths_Inl:
  assumes "expandSearchPathPatterns env (groups_searchPaths env p) = Inl e"
  shows "parseSearchPaths env p = Inl e"
  using assms by (simp add: parseSearchPaths_def)

lemma parseExcludePattern_Inr:
  assumes "expandSearchPathPatterns env (groups_searchPaths env p) = Inr sps"
  shows "parseExcludePattern env p =
     Inr (if excludeExpressionOf env (exprSegments env p) sps \<noteq> []
          then Some (excludeExpressionOf env (exprSegments env p) sps) else None)"
proof (cases "sps = []")
  case True
  then show ?thesis
    unfolding parseExcludePattern_def parseSearchPaths_Inr [OF assms] excludeExpressionOf_def
    by (simp add: Let_def)
next
  case False
  then show ?thesis
    unfolding parseExcludePattern_def parseSearchPaths_Inr [OF assms] excludeExpressionOf_def
    by (simp add: Let_def)
qed

lemma glob_part_keys:
  "fst ` set (case patternListToIExpression xs of Some g \<Rightarrow> mixin [] g | None \<Rightarrow> []) = set xs"
proof (cases "patternListToIExpression xs")
  case None
  then have "xs = []" by (simp add: patternList_None)
  with None show ?thesis by simp
next
  case (Some g)
  then show ?thesis using patternList_Some [OF Some] by (simp add: mixin_keys)
qed

lemma glob_part_values:
  "\<forall>kv\<in>set (case patternListToIExpression xs of Some g \<Rightarrow> mixin [] g | None \<Rightarrow> []).
     snd kv = BoolValue True"
proof (cases "patternListToIExpression xs")
  case None
  then show ?thesis by simp
next
  case (Some g)
  have "snd kv = BoolValue True" if "kv \<in> set (mixin [] g)" for kv
  proof -
    from mixin_values [OF that] have "map_of g (fst kv) = Some (snd kv)" by simp
    then have "(fst kv, snd kv) \<in> set g" by (rule map_of_SomeD)
    with patternList_Some [OF Some] show ?thesis by auto
  qed
  with Some show ?thesis by simp
qed

lemma excludeExpressionOf_keys:
  "fst ` set (excludeExpressionOf env xs sps) = set xs \<union> excludePath env ` set sps"
  unfolding excludeExpressionOf_def
  by (simp only: foldl_update_keys glob_part_keys)

lemma excludeExpressionOf_values:
  "\<forall>kv\<in>set (excludeExpressionOf env xs sps). snd kv = BoolValue True"
  unfolding excludeExpressionOf_def
  by (rule foldl_update_values) (rule glob_part_values)

text \<open>
  C7. If resolving the search paths of the input throws, \<open>parseExcludePattern\<close> throws
  the same error. Otherwise it returns; the keys of the result are the expanded glob
  segments together with, for each resolved search path, the file system path of its
  location joined with its glob tail if it has one and the bare path if not; every key is
  mapped to \<open>true\<close>; and the result is \<open>undefined\<close> exactly when there is no such
  key.
\<close>

theorem parseExcludePattern_keys:
  "(\<forall>err. expandSearchPathPatterns env (groups_searchPaths env p) = Inl err \<longrightarrow>
      parseExcludePattern env p = Inl err) \<and>
   (\<forall>sps. expandSearchPathPatterns env (groups_searchPaths env p) = Inr sps \<longrightarrow>
      (\<exists>ex. parseExcludePattern env p = Inr ex \<and>
         (ex = None \<longleftrightarrow>
            set (exprSegments env p) \<union>
            (\<lambda>sp. case pattern sp of
                    Some g \<Rightarrow> paths_join env (uri_fsPath env (searchPath sp)) g
                  | None \<Rightarrow> uri_fsPath env (searchPath sp)) ` set sps = {}) \<and>
         (\<forall>e. ex = Some e \<longrightarrow>
            fst ` set e =
              set (exprSegments env p) \<union>
              (\<lambda>sp. case pattern sp of
                      Some g \<Rightarrow> paths_join env (uri_fsPath env (searchPath sp)) g
                    | None \<Rightarrow> uri_fsPath env (searchPath sp)) ` set sps \<and>
            (\<forall>kv\<in>set e. snd kv = BoolValue True))))"
proof (intro conjI allI impI)
  fix err
  assume "expandSearchPathPatterns env (groups_searchPaths env p) = Inl err"
  then show "parseExcludePattern env p = Inl err"
    by (simp add: parseExcludePattern_def parseSearchPaths_Inl)
next
  fix sps
  assume a: "expandSearchPathPatterns env (groups_searchPaths env p) = Inr sps"
  let ?key = "\<lambda>sp. case pattern sp of
                    Some g \<Rightarrow> paths_join env (uri_fsPath env (searchPath sp)) g
                  | None \<Rightarrow> uri_fsPath env (searchPath sp)"
  let ?e = "excludeExpressionOf env (exprSegments env p) sps"
  have "excludePath env ` set sps = ?key ` set sps"
    using resolved_tail_nonempty [OF a] by (intro image_cong) (auto simp: excludePath_tail)
  then have k: "fst ` set ?e = set (exprSegments env p) \<union> ?key ` set sps"
    by (simp add: excludeExpressionOf_keys)
  have v: "\<forall>kv\<in>set ?e. snd kv = BoolValue True"
    by (rule excludeExpressionOf_values)
  have ne: "?e = [] \<longleftrightarrow> set (exprSegments env p) \<union> ?key ` set sps = {}"
    using k by (metis keys_empty_iff)
  show "\<exists>ex. parseExcludePattern env p = Inr ex \<and>
         (ex = None \<longleftrightarrow> set (exprSegments env p) \<union> ?key ` set sps = {}) \<and>
         (\<forall>e. ex = Some e \<longrightarrow>
            fst ` set e = set (exprSegments env p) \<union> ?key ` set sps \<and>
            (\<forall>kv\<in>set e. snd kv = BoolValue True))"
  proof (cases "?e = []")
    case True
    then have "parseExcludePattern env p = Inr None"
      by (simp add: parseExcludePattern_Inr [OF a])
    with True ne show ?thesis by simp
  next
    case False
    then have "parseExcludePattern env p = Inr (Some ?e)"
      by (simp add: parseExcludePattern_Inr [OF a])
    with False ne k v show ?thesis by simp
  qed
qed

lemma sample_expand_lib:
  "expandSearchPathPatterns (sample_env WORKSPACE two_folders None)
     (groups_searchPaths (sample_env WORKSPACE two_folders None) (Some ''node_modules, ./lib'')) =
     Inr [\<lparr>searchPath = ''/w/lib'', pattern = None\<rparr>]"
  by (simp add: parse_defs char_class_defs sample_defs)

lemma sample_exprSegments:
  "exprSegments (sample_env WORKSPACE two_folders None) (Some ''node_modules, ./lib'') =
     [''**/node_modules/**'', ''**/node_modules'']"
  by (simp add: parse_defs char_class_defs sample_defs)

lemma sample_parseExcludePattern_mixed:
  "parseExcludePattern (sample_env WORKSPACE two_folders None) (Some ''node_modules, ./lib'') =
     Inr (Some [(''**/node_modules/**'', BoolValue True), (''**/node_modules'', BoolValue True),
                (''/w/lib'', BoolValue True)])"
  unfolding parseExcludePattern_Inr [OF sample_expand_lib] sample_exprSegments
  by (simp add: excludeExpressionOf_def patternListToIExpression_def mixin_def excludePath_def
      sample_env_def)

text \<open>
  The theorem for the input \<open>node_modules, ./lib\<close> in a workspace with the folders
  \<open>app\<close> and \<open>lib\<close>.
\<close>

theorem parseExcludePattern_keys_witness:
  "parseExcludePattern (sample_env WORKSPACE two_folders None) (Some ''node_modules, ./lib'') =
     Inr (Some [(''**/node_modules/**'', BoolValue True), (''**/node_modules'', BoolValue True),
                (''/w/lib'', BoolValue True)]) \<and>
   fst ` set [(''**/node_modules/**'', BoolValue True), (''**/node_modules'', BoolValue True),
              (''/w/lib'', BoolValue True)] =
     set (exprSegments (sample_env WORKSPACE two_folders None) (Some ''node_modules, ./lib'')) \<union>
     (\<lambda>sp. case pattern sp of
             Some g \<Rightarrow> paths_join (sample_env WORKSPACE two_folders None)
                        (uri_fsPath (sample_env WORKSPACE two_folders None) (searchPath sp)) g
           | None \<Rightarrow> uri_fsPath (sample_env WORKSPACE two_folders None) (searchPath sp)) `
       set [\<lparr>searchPath = ''/w/lib'', pattern = None\<rparr>]"
  using parseExcludePattern_keys [of "sample_env WORKSPACE two_folders None"
      "Some ''node_modules, ./lib''"]
    sample_expand_lib sample_parseExcludePattern_mixed
  by simp

subsection \<open>An expression that is present has a key\<close>

lemma patternList_not_empty: "patternListToIExpression xs \<noteq> Some []"
  using patternList_Some [of xs "[]"] by auto

lemma parseSearchPaths_pattern_not_empty:
  "parseSearchPaths env p = Inr r \<Longrightarrow> pattern_expr r \<noteq> Some []"
  by (cases "expandSearchPathPatterns env (groups_searchPaths env p)")
     (auto simp: parseSearchPaths_def patternList_not_empty)

lemma parseExcludePattern_not_empty: "parseExcludePattern env p \<noteq> Inr (Some [])"
proof (cases "expandSearchPathPatterns env (groups_searchPaths env p)")
  case (Inl e)
  then show ?thesis by (simp add: parseExcludePattern_def parseSearchPaths_Inl)
next
  case (Inr sps)
  then show ?thesis by (simp add: parseExcludePattern_Inr)
qed

lemma mergeExcludes_not_empty: "mergeExcludesFromFolderQueries env fqs \<noteq> Some []"
  by (simp add: mergeExcludesFromFolderQueries_def)

lemma searchPath_includePattern_not_empty:
  "fq_includePattern (getFolderQueryForSearchPath env sp) \<noteq> Some []"
  by (simp add: getFolderQueryForSearchPath_def patternList_not_empty split: option.splits)

lemma root_includePattern_not_empty:
  "fq_includePattern (getFolderQueryForRoot env f opts) \<noteq> Some []"
  by (simp add: getFolderQueryForRoot_def Let_def)

lemma folderQueriesAndExcludes_not_empty:
  assumes "ex0 \<noteq> Some []"
  shows "snd (folderQueriesAndExcludes env fqs0 sps ex0) \<noteq> Some []"
proof (cases "\<exists>l. sps = Some l \<and> l \<noteq> []")
  case False
  with assms show ?thesis
    by (cases sps) (auto simp: folderQueriesAndExcludes_def)
next
  case True
  then obtain l where l: "sps = Some l" "l \<noteq> []" by blast
  show ?thesis
  proof (cases "case fqs0 of Some fqs \<Rightarrow> mergeExcludesFromFolderQueries env fqs | None \<Rightarrow> None")
    case None
    with l assms show ?thesis by (simp add: folderQueriesAndExcludes_def)
  next
    case (Some a)
    then have "a \<noteq> []"
      using mergeExcludes_not_empty by (cases fqs0) auto
    then have "mixin (case ex0 of Some ex \<Rightarrow> ex | None \<Rightarrow> []) a \<noteq> []"
      by (rule mixin_nonempty)
    with l Some show ?thesis by (simp add: folderQueriesAndExcludes_def)
  qed
qed

lemma folderQueriesAndExcludes_include:
  assumes "\<forall>fqs. fqs0 = Some fqs \<longrightarrow> (\<forall>fq\<in>set fqs. fq_includePattern fq \<noteq> Some [])"
  shows "\<forall>fq\<in>set (case fst (folderQueriesAndExcludes env fqs0 sps ex0) of Some l \<Rightarrow> l | None \<Rightarrow> []).
           fq_includePattern fq \<noteq> Some []"
proof (cases "\<exists>l. sps = Some l \<and> l \<noteq> []")
  case False
  then have "fst (folderQueriesAndExcludes env fqs0 sps ex0) = fqs0"
    by (cases sps) (auto simp: folderQueriesAndExcludes_def)
  with assms show ?thesis by (cases fqs0) auto
next
  case True
  then obtain l where l: "sps = Some l" "l \<noteq> []" by blast
  then have "fst (folderQueriesAndExcludes env fqs0 sps ex0) =
      Some (map (getFolderQueryForSearchPath env) l)"
    by (simp add: folderQueriesAndExcludes_def Let_def)
  then show ?thesis
    by (simp add: searchPath_includePattern_not_empty)
qed

lemma commonQuery_Inr:
  assumes "commonQuery env frs opts0 = Inr q"
  obtains r ex0 where
    "parseSearchPaths env (opt_includePattern (case opts0 of Some opts \<Rightarrow> opts | None \<Rightarrow> emptyOptions)) = Inr r"
    "parseExcludePattern env (opt_excludePattern (case opts0 of Some opts \<Rightarrow> opts | None \<Rightarrow> emptyOptions)) = Inr ex0"
    "folderQueries q =
       (case fst (folderQueriesAndExcludes env
                    (map_option (map (\<lambda>f. getFolderQueryForRoot env f
                        (case opts0 of Some opts \<Rightarrow> opts | None \<Rightarrow> emptyOptions))) frs)
                    (searchPaths r) ex0) of Some l \<Rightarrow> l | None \<Rightarrow> [])"
    "excludePattern q =
       snd (folderQueriesAndExcludes env
              (map_option (map (\<lambda>f. getFolderQueryForRoot env f
                  (case opts0 of Some opts \<Rightarrow> opts | None \<Rightarrow> emptyOptions))) frs)
              (searchPaths r) ex0)"
    "includePattern q = pattern_expr r"
    "usingSearchPaths q = (case searchPaths r of Some l \<Rightarrow> l \<noteq> [] | None \<Rightarrow> False)"
proof -
  let ?o = "case opts0 of Some opts \<Rightarrow> opts | None \<Rightarrow> emptyOptions"
  show ?thesis
  proof (cases "parseSearchPaths env (opt_includePattern ?o)")
    case (Inl e)
    with assms show ?thesis by (simp add: commonQuery_def Let_def)
  next
    case r: (Inr r)
    show ?thesis
    proof (cases "parseExcludePattern env (opt_excludePattern ?o)")
      case (Inl e)
      with assms r show ?thesis by (simp add: commonQuery_def Let_def)
    next
      case (Inr ex0)
      with assms r that [of r ex0] show ?thesis
        by (auto simp: commonQuery_def Let_def)
    qed
  qed
qed

text \<open>
  C9. No operation returns a present expression without keys: not \<open>parseSearchPaths\<close>
  in its pattern, not \<open>parseExcludePattern\<close>, not the merge of the folder excludes,
  not a folder query built for a search path in its include pattern, and not
  \<open>commonQuery\<close> in the include pattern, the exclude pattern and the include patterns of
  the folder queries of its result.
\<close>

theorem pattern_expressions_never_empty:
  "(\<forall>r. parseSearchPaths env p = Inr r \<longrightarrow> pattern_expr r \<noteq> Some []) \<and>
   parseExcludePattern env p \<noteq> Inr (Some []) \<and>
   mergeExcludesFromFolderQueries env fqs \<noteq> Some [] \<and>
   fq_includePattern (getFolderQueryForSearchPath env sp) \<noteq> Some [] \<and>
   (\<forall>q. commonQuery env frs opts0 = Inr q \<longrightarrow>
      includePattern q \<noteq> Some [] \<and> excludePattern q \<noteq> Some [] \<and>
      (\<forall>fq\<in>set (folderQueries q). fq_includePattern fq \<noteq> Some []))"
proof (intro conjI allI impI)
  fix q
  assume a: "commonQuery env frs opts0 = Inr q"
  let ?o = "case opts0 of Some opts \<Rightarrow> opts | None \<Rightarrow> emptyOptions"
  from a obtain r ex0 where
    r: "parseSearchPaths env (opt_includePattern ?o) = Inr r" and
    e: "parseExcludePattern env (opt_excludePattern ?o) = Inr ex0" and
    fq: "folderQueries q =
       (case fst (folderQueriesAndExcludes env
                    (map_option (map (\<lambda>f. getFolderQueryForRoot env f ?o)) frs)
                    (searchPaths r) ex0) of Some l \<Rightarrow> l | None \<Rightarrow> [])" and
    ex: "excludePattern q =
       snd (folderQueriesAndExcludes env
              (map_option (map (\<lambda>f. getFolderQueryForRoot env f ?o)) frs)
              (searchPaths r) ex0)" and
    inc: "includePattern q = pattern_expr r"
    by (rule commonQuery_Inr)
  show "includePattern q \<noteq> Some []"
    unfolding inc using r by (rule parseSearchPaths_pattern_not_empty)
  have "ex0 \<noteq> Some []"
    using e parseExcludePattern_not_empty [of env "opt_excludePattern ?o"] by auto
  then show "excludePattern q \<noteq> Some []"
    unfolding ex by (rule folderQueriesAndExcludes_not_empty)
  have "\<forall>fqs. map_option (map (\<lambda>f. getFolderQueryForRoot env f ?o)) frs = Some fqs \<longrightarrow>
          (\<forall>fq\<in>set fqs. fq_includePattern fq \<noteq> Some [])"
    by (cases frs) (auto simp: root_includePattern_not_empty)
  then show "\<forall>fq\<in>set (folderQueries q). fq_includePattern fq \<noteq> Some []"
    unfolding fq by (rule folderQueriesAndExcludes_include)
qed (simp_all add: parseSearchPaths_pattern_not_empty parseExcludePattern_not_empty
      mergeExcludes_not_empty searchPath_includePattern_not_empty)

lemma sample_parseSearchPaths_mixed:
  "parseSearchPaths (sample_env WORKSPACE two_folders None) (Some ''node_modules, ./lib'') =
     Inr \<lparr>searchPaths = Some [\<lparr>searchPath = ''/w/lib'', pattern = None\<rparr>],
          pattern_expr = Some [(''**/node_modules/**'', BoolValue True),
                               (''**/node_modules'', BoolValue True)]\<rparr>"
  unfolding parseSearchPaths_Inr [OF sample_expand_lib] sample_exprSegments
  by (simp add: patternListToIExpression_def)

text \<open>
  The theorem for the input \<open>node_modules, ./lib\<close>, for a search path with the tail
  \<open>*.ts\<close> and for a query over the folder \<open>/w/app\<close>.
\<close>

theorem pattern_expressions_never_empty_witness:
  "parseSearchPaths (sample_env WORKSPACE two_folders None) (Some ''node_modules, ./lib'') =
     Inr \<lparr>searchPaths = Some [\<lparr>searchPath = ''/w/lib'', pattern = None\<rparr>],
          pattern_expr = Some [(''**/node_modules/**'', BoolValue True),
                               (''**/node_modules'', BoolValue True)]\<rparr> \<and>
   pattern_expr \<lparr>searchPaths = Some [\<lparr>searchPath = ''/w/lib'', pattern = None\<rparr>],
          pattern_expr = Some [(''**/node_modules/**'', BoolValue True),
                               (''**/node_modules'', BoolValue True)]\<rparr> \<noteq> Some [] \<and>
   parseExcludePattern (sample_env WORKSPACE two_folders None) (Some ''node_modules, ./lib'') \<noteq>
     Inr (Some []) \<and>
   mergeExcludesFromFolderQueries (sample_env WORKSPACE two_folders None) [] = None \<and>
   fq_includePattern (getFolderQueryForSearchPath (sample_env WORKSPACE two_folders None)
       \<lparr>searchPath = ''/w/lib'', pattern = Some ''*.ts''\<rparr>) = Some [(''*.ts'', BoolValue True)] \<and>
   (\<exists>q. commonQuery (sample_env WORKSPACE two_folders None) (Some [''/w/app''])
          (Some (emptyOptions\<lparr>opt_includePattern := Some ''node_modules, ./lib''\<rparr>)) = Inr q \<and>
        includePattern q \<noteq> Some [] \<and> excludePattern q \<noteq> Some [] \<and>
        list_all (\<lambda>fq. fq_includePattern fq \<noteq> Some []) (folderQueries q))"
proof -
  let ?E = "sample_env WORKSPACE two_folders None"
  let ?o = "emptyOptions\<lparr>opt_includePattern := Some ''node_modules, ./lib''\<rparr>"
  note t = pattern_expressions_never_empty [of ?E "Some ''node_modules, ./lib''" "[]"
      "\<lparr>searchPath = ''/w/lib'', pattern = Some ''*.ts''\<rparr>" "Some [''/w/app'']" "Some ?o"]
  have e: "parseExcludePattern ?E None = Inr None"
    by (simp add: parseExcludePattern_def parse_defs char_class_defs sample_defs)
  have c: "\<exists>q. commonQuery ?E (Some [''/w/app'']) (Some ?o) = Inr q"
    by (simp add: commonQuery_def sample_parseSearchPaths_mixed e emptyOptions_def Let_def)
  then obtain q where q: "commonQuery ?E (Some [''/w/app'']) (Some ?o) = Inr q" ..
  with t have "includePattern q \<noteq> Some [] \<and> excludePattern q \<noteq> Some [] \<and>
        list_all (\<lambda>fq. fq_includePattern fq \<noteq> Some []) (folderQueries q)"
    by (simp add: list_all_iff)
  with q have 5: "\<exists>q. commonQuery ?E (Some [''/w/app'']) (Some ?o) = Inr q \<and>
        includePattern q \<noteq> Some [] \<and> excludePattern q \<noteq> Some [] \<and>
        list_all (\<lambda>fq. fq_includePattern fq \<noteq> Some []) (folderQueries q)"
    by blast
  have 3: "mergeExcludesFromFolderQueries ?E [] = None"
    by (simp add: mergeExcludesFromFolderQueries_def mergedExcludes_def)
  have 4: "fq_includePattern (getFolderQueryForSearchPath ?E
       \<lparr>searchPath = ''/w/lib'', pattern = Some ''*.ts''\<rparr>) = Some [(''*.ts'', BoolValue True)]"
    by (simp add: getFolderQueryForSearchPath_def patternListToIExpression_def)
  from t have 2: "parseExcludePattern ?E (Some ''node_modules, ./lib'') \<noteq> Inr (Some [])"
    by blast
  show ?thesis
    using sample_parseSearchPaths_mixed 2 3 4 5 by simp
qed

subsection \<open>Search paths replace the folder queries\<close>

lemma getAbsolute_fold_keys:
  "fst ` set (foldl (\<lambda>absExpr key.
              case map_of expr key of
                Some v \<Rightarrow>
                  if truthy v \<and> \<not> paths_isAbsolute env key
                  then AList.update (paths_join env root key) v absExpr
                  else absExpr
              | None \<Rightarrow> absExpr) init ks) =
   fst ` set init \<union>
   {paths_join env root k | k. k \<in> set ks \<and>
      (\<exists>v. map_of expr k = Some v \<and> truthy v \<and> \<not> paths_isAbsolute env k)}"
proof (induction ks arbitrary: init)
  case Nil
  then show ?case by simp
next
  case (Cons a ks)
  show ?case
  proof (cases "\<exists>v. map_of expr a = Some v \<and> truthy v \<and> \<not> paths_isAbsolute env a")
    case True
    then obtain v where v: "map_of expr a = Some v" "truthy v" "\<not> paths_isAbsolute env a"
      by blast
    show ?thesis
      using v by (simp add: Cons.IH AList.dom_update) blast
  next
    case False
    then show ?thesis
      by (cases "map_of expr a") (auto simp: Cons.IH)
  qed
qed

lemma getAbsoluteIExpression_keys:
  "fst ` set (getAbsoluteIExpression env expr root) =
   {paths_join env root k | k.
      \<exists>v. map_of expr k = Some v \<and> truthy v \<and> \<not> paths_isAbsolute env k}"
proof -
  have "k \<in> set (map fst expr)" if "map_of expr k = Some v" for k v
    using map_of_SomeD [OF that] by force
  then show ?thesis
    unfolding getAbsoluteIExpression_def getAbsolute_fold_keys by auto
qed

lemma mergedExcludes_fold_keys:
  "fst ` set (foldl (\<lambda>merged fq.
              case fq_excludePattern fq of
                Some ex \<Rightarrow>
                  mixin merged (getAbsoluteIExpression env ex (uri_fsPath env (folder fq)))
              | None \<Rightarrow> merged) init fqs) =
   fst ` set init \<union>
   (\<Union>fq\<in>set fqs. case fq_excludePattern fq of
                      Some ex \<Rightarrow> fst ` set (getAbsoluteIExpression env ex (uri_fsPath env (folder fq)))
                    | None \<Rightarrow> {})"
proof (induction fqs arbitrary: init)
  case Nil
  then show ?case by simp
next
  case (Cons fq fqs)
  show ?case
    by (cases "fq_excludePattern fq") (auto simp: Cons.IH mixin_keys)
qed

lemma getFolderQueryForRoot_folder: "folder (getFolderQueryForRoot env f opts) = f"
  by (simp add: getFolderQueryForRoot_def Let_def)

lemma getFolderQueryForRoot_excludePattern:
  "fq_excludePattern (getFolderQueryForRoot env f opts) =
     getExcludesForFolder env (getValue env f) opts"
  by (simp add: getFolderQueryForRoot_def Let_def)

lemma mergedExcludes_keys:
  "fst ` set (mergedExcludes env (map (\<lambda>f. getFolderQueryForRoot env f opts) frs)) =
   {paths_join env (uri_fsPath env f) k | f k. f \<in> set frs \<and>
      (\<exists>ex v. getExcludesForFolder env (getValue env f) opts = Some ex \<and>
         map_of ex k = Some v \<and> truthy v \<and> \<not> paths_isAbsolute env k)}"
  (is "?L = ?R")
proof -
  have L: "?L = (\<Union>f\<in>set frs. case getExcludesForFolder env (getValue env f) opts of
                      Some ex \<Rightarrow> fst ` set (getAbsoluteIExpression env ex (uri_fsPath env f))
                    | None \<Rightarrow> {})"
    unfolding mergedExcludes_def mergedExcludes_fold_keys
    by (simp add: getFolderQueryForRoot_folder getFolderQueryForRoot_excludePattern
        cong: option.case_cong)
  show ?thesis
  proof (intro set_eqI iffI)
    fix x assume "x \<in> ?L"
    then obtain f where f: "f \<in> set frs" and
      x: "x \<in> (case getExcludesForFolder env (getValue env f) opts of
                      Some ex \<Rightarrow> fst ` set (getAbsoluteIExpression env ex (uri_fsPath env f))
                    | None \<Rightarrow> {})"
      unfolding L by blast
    then obtain ex where ex: "getExcludesForFolder env (getValue env f) opts = Some ex"
      by (cases "getExcludesForFolder env (getValue env f) opts") auto
    with x have "x \<in> fst ` set (getAbsoluteIExpression env ex (uri_fsPath env f))" by simp
    then show "x \<in> ?R"
      unfolding getAbsoluteIExpression_keys using f ex by blast
  next
    fix x assume "x \<in> ?R"
    then obtain f k ex v where f: "f \<in> set frs" and x: "x = paths_join env (uri_fsPath env f) k"
      and ex: "getExcludesForFolder env (getValue env f) opts = Some ex"
      and k: "map_of ex k = Some v" "truthy v" "\<not> paths_isAbsolute env k"
      by blast
    have "x \<in> fst ` set (getAbsoluteIExpression env ex (uri_fsPath env f))"
      unfolding getAbsoluteIExpression_keys using x k by blast
    with f ex show "x \<in> ?L"
      unfolding L by force
  qed
qed

lemma folderQueriesAndExcludes_search_paths:
  assumes "sps \<noteq> []"
  shows "fst (folderQueriesAndExcludes env (Some fqs) (Some sps) ex0) =
           Some (map (getFolderQueryForSearchPath env) sps) \<and>
         expressionKeys (snd (folderQueriesAndExcludes env (Some fqs) (Some sps) ex0)) =
           expressionKeys ex0 \<union> fst ` set (mergedExcludes env fqs)"
proof (cases "mergedExcludes env fqs = []")
  case True
  with assms show ?thesis
    by (simp add: folderQueriesAndExcludes_def mergeExcludesFromFolderQueries_def)
next
  case False
  with assms show ?thesis
    by (cases ex0)
      (simp_all add: folderQueriesAndExcludes_def mergeExcludesFromFolderQueries_def
        expressionKeys_def mixin_keys)
qed

text \<open>
  C2, as the code has it. When the include pattern resolves to the search paths \<open>sps\<close>
  and folder resources are given, \<open>commonQuery\<close> returns a query that has one folder
  query per resolved search path and whose exclude pattern has exactly these keys: the
  keys of the parsed exclude pattern and, for every given folder and every key of its
  exclude setting that is mapped to a truthy value and is not an absolute path, that key
  joined onto the file system path of the folder. A key of a folder's exclude setting
  that is an absolute path or is mapped to \<open>false\<close> is not carried over.
\<close>

theorem commonQuery_search_paths_replace_folders:
  assumes "parseSearchPaths env (opt_includePattern opts) = Inr r"
    and "searchPaths r = Some sps"
    and "parseExcludePattern env (opt_excludePattern opts) = Inr ex0"
  shows "\<exists>q. commonQuery env (Some frs) (Some opts) = Inr q \<and> usingSearchPaths q \<and>
           folderQueries q = map (getFolderQueryForSearchPath env) sps \<and>
           expressionKeys (excludePattern q) =
             expressionKeys ex0 \<union>
             {paths_join env (uri_fsPath env f) k | f k. f \<in> set frs \<and>
                (\<exists>ex v. getExcludesForFolder env (getValue env f) opts = Some ex \<and>
                   map_of ex k = Some v \<and> truthy v \<and> \<not> paths_isAbsolute env k)}"
proof -
  have ne: "sps \<noteq> []"
  proof (cases "expandSearchPathPatterns env (groups_searchPaths env (opt_includePattern opts))")
    case (Inl e)
    with assms(1) show ?thesis by (simp add: parseSearchPaths_def)
  next
    case (Inr l)
    with assms(1) have "searchPaths r = (if l \<noteq> [] then Some l else None)"
      by (auto simp: parseSearchPaths_def)
    with assms(2) show ?thesis by (cases "l = []") auto
  qed
  have "\<exists>q. commonQuery env (Some frs) (Some opts) = Inr q"
    by (simp add: commonQuery_def assms(1,3) Let_def)
  then obtain q where q: "commonQuery env (Some frs) (Some opts) = Inr q" ..
  from q obtain r' ex0' where
    r': "parseSearchPaths env (opt_includePattern (case Some opts of Some opts \<Rightarrow> opts | None \<Rightarrow> emptyOptions)) = Inr r'" and
    e': "parseExcludePattern env (opt_excludePattern (case Some opts of Some opts \<Rightarrow> opts | None \<Rightarrow> emptyOptions)) = Inr ex0'" and
    fq: "folderQueries q =
       (case fst (folderQueriesAndExcludes env
                    (map_option (map (\<lambda>f. getFolderQueryForRoot env f
                        (case Some opts of Some opts \<Rightarrow> opts | None \<Rightarrow> emptyOptions))) (Some frs))
                    (searchPaths r') ex0') of Some l \<Rightarrow> l | None \<Rightarrow> [])" and
    ex: "excludePattern q =
       snd (folderQueriesAndExcludes env
              (map_option (map (\<lambda>f. getFolderQueryForRoot env f
                  (case Some opts of Some opts \<Rightarrow> opts | None \<Rightarrow> emptyOptions))) (Some frs))
              (searchPaths r') ex0')" and
    us: "usingSearchPaths q = (case searchPaths r' of Some l \<Rightarrow> l \<noteq> [] | None \<Rightarrow> False)"
    by (rule commonQuery_Inr)
  from r' assms(1) have rr: "r' = r" by simp
  from e' assms(3) have ee: "ex0' = ex0" by simp
  note fs = folderQueriesAndExcludes_search_paths [OF ne,
      of env "map (\<lambda>f. getFolderQueryForRoot env f opts) frs" ex0]
  have 1: "usingSearchPaths q"
    using us ne by (simp add: rr assms(2))
  have 2: "folderQueries q = map (getFolderQueryForSearchPath env) sps"
    using fq fs by (simp add: rr ee assms(2))
  have 3: "expressionKeys (excludePattern q) =
      expressionKeys ex0 \<union>
      fst ` set (mergedExcludes env (map (\<lambda>f. getFolderQueryForRoot env f opts) frs))"
    using ex fs by (simp add: rr ee assms(2))
  show ?thesis
    using q 1 2 3 unfolding mergedExcludes_keys by blast
qed

lemma sample_parseSearchPaths:
  "parseSearchPaths (sample_env FOLDER one_folder (Some sample_excludes)) (Some ''./src'') =
     Inr \<lparr>searchPaths = Some [\<lparr>searchPath = ''/w/app/./src'', pattern = None\<rparr>],
          pattern_expr = None\<rparr>"
  by (simp add: parse_defs char_class_defs sample_defs)

lemma sample_parseExcludePattern:
  "parseExcludePattern (sample_env FOLDER one_folder (Some sample_excludes)) None = Inr None"
  by (simp add: parseExcludePattern_def parse_defs char_class_defs sample_defs)

lemma sample_commonQuery:
  "commonQuery (sample_env FOLDER one_folder (Some sample_excludes)) (Some [''/w/app''])
     (Some sample_options) =
     Inr \<lparr>folderQueries =
            [\<lparr>folder = ''/w/app/./src'', fq_includePattern = None, fq_excludePattern = None,
              fileEncoding = None, disregardIgnoreFiles = None,
              disregardGlobalIgnoreFiles = None, ignoreSymlinks = None\<rparr>],
          usingSearchPaths = True, extraFileResources = None,
          excludePattern = Some [(''/w/app/**/x'', BoolValue True)],
          includePattern = None, maxResults = None, useRipgrep = True\<rparr>"
proof -
  have o: "opt_includePattern sample_options = Some ''./src''"
    "opt_excludePattern sample_options = None"
    "opt_extraFileResources sample_options = None"
    "opt_maxResults sample_options = None"
    by (simp_all add: sample_options_def emptyOptions_def)
  have g: "getFolderQueryForRoot (sample_env FOLDER one_folder (Some sample_excludes)) ''/w/app''
      sample_options =
      \<lparr>folder = ''/w/app'', fq_includePattern = None, fq_excludePattern = Some sample_excludes,
       fileEncoding = None, disregardIgnoreFiles = Some False,
       disregardGlobalIgnoreFiles = Some False, ignoreSymlinks = Some False\<rparr>"
    by (simp add: getFolderQueryForRoot_def getExcludesForFolder_def files_encoding_def
        sample_options_def emptyOptions_def sample_env_def sample_config_def)
  have m: "mergedExcludes (sample_env FOLDER one_folder (Some sample_excludes))
      [\<lparr>folder = ''/w/app'', fq_includePattern = None, fq_excludePattern = Some sample_excludes,
       fileEncoding = None, disregardIgnoreFiles = Some False,
       disregardGlobalIgnoreFiles = Some False, ignoreSymlinks = Some False\<rparr>] =
      [(''/w/app/**/x'', BoolValue True)]"
    by (simp add: mergedExcludes_def getAbsoluteIExpression_def mixin_def sample_excludes_def
        sample_env_def)
  have s: "getFolderQueryForSearchPath (sample_env FOLDER one_folder (Some sample_excludes))
      \<lparr>searchPath = ''/w/app/./src'', pattern = None\<rparr> =
      \<lparr>folder = ''/w/app/./src'', fq_includePattern = None, fq_excludePattern = None,
              fileEncoding = None, disregardIgnoreFiles = None,
              disregardGlobalIgnoreFiles = None, ignoreSymlinks = None\<rparr>"
    by (simp add: getFolderQueryForSearchPath_def files_encoding_def sample_env_def
        sample_config_def)
  have r: "search_useRipgrep (search (getValue (sample_env FOLDER one_folder (Some sample_excludes)) ''/w/app''))"
    by (simp add: sample_env_def sample_config_def)
  show ?thesis
    unfolding commonQuery_def
    by (simp add: o sample_parseSearchPaths sample_parseExcludePattern g s r
        folderQueriesAndExcludes_def mergeExcludesFromFolderQueries_def m mixin_def)
qed

text \<open>
  C2 as stated fails: the folder \<open>/w/app\<close> has the exclude keys \<open>**/x\<close>,
  \<open>/abs\<close> and \<open>off\<close> (the last one mapped to \<open>false\<close>); with the include
  pattern \<open>./src\<close> the exclude pattern of the query has the single key
  \<open>/w/app/**/x\<close>.
\<close>

theorem folder_exclude_keys_dropped:
  "fq_excludePattern
     (getFolderQueryForRoot (sample_env FOLDER one_folder (Some sample_excludes)) ''/w/app''
        sample_options) =
     Some [(''**/x'', BoolValue True), (''/abs'', BoolValue True), (''off'', BoolValue False)] \<and>
   commonQuery (sample_env FOLDER one_folder (Some sample_excludes)) (Some [''/w/app''])
     (Some sample_options) =
     Inr \<lparr>folderQueries =
            [\<lparr>folder = ''/w/app/./src'', fq_includePattern = None, fq_excludePattern = None,
              fileEncoding = None, disregardIgnoreFiles = None,
              disregardGlobalIgnoreFiles = None, ignoreSymlinks = None\<rparr>],
          usingSearchPaths = True, extraFileResources = None,
          excludePattern = Some [(''/w/app/**/x'', BoolValue True)],
          includePattern = None, maxResults = None, useRipgrep = True\<rparr>"
  by (simp add: sample_commonQuery)
     (simp add: getFolderQueryForRoot_def getExcludesForFolder_def sample_defs)

text \<open>
  The theorem for the same folder and include pattern.
\<close>

theorem commonQuery_search_paths_replace_folders_witness:
  "\<exists>q. commonQuery (sample_env FOLDER one_folder (Some sample_excludes)) (Some [''/w/app''])
          (Some sample_options) = Inr q \<and>
       usingSearchPaths q \<and>
       folderQueries q =
         [\<lparr>folder = ''/w/app/./src'', fq_includePattern = None, fq_excludePattern = None,
           fileEncoding = None, disregardIgnoreFiles = None,
           disregardGlobalIgnoreFiles = None, ignoreSymlinks = None\<rparr>] \<and>
       expressionKeys (excludePattern q) = {''/w/app/**/x''} \<and>
       expressionKeys (excludePattern q) =
         {paths_join (sample_env FOLDER one_folder (Some sample_excludes))
            (uri_fsPath (sample_env FOLDER one_folder (Some sample_excludes)) f) k | f k.
          f \<in> set [''/w/app''] \<and>
          (\<exists>ex v. getExcludesForFolder (sample_env FOLDER one_folder (Some sample_excludes))
                    (getValue (sample_env FOLDER one_folder (Some sample_excludes)) f)
                    sample_options = Some ex \<and>
             map_of ex k = Some v \<and> truthy v \<and>
             \<not> paths_isAbsolute (sample_env FOLDER one_folder (Some sample_excludes)) k)}"
proof -
  let ?E = "sample_env FOLDER one_folder (Some sample_excludes)"
  have p: "parseSearchPaths ?E (opt_includePattern sample_options) =
     Inr \<lparr>searchPaths = Some [\<lparr>searchPath = ''/w/app/./src'', pattern = None\<rparr>],
          pattern_expr = None\<rparr>"
    using sample_parseSearchPaths by (simp add: sample_options_def emptyOptions_def)
  have s: "searchPaths \<lparr>searchPaths = Some [\<lparr>searchPath = ''/w/app/./src'', pattern = None\<rparr>],
          pattern_expr = None\<rparr> = Some [\<lparr>searchPath = ''/w/app/./src'', pattern = None\<rparr>]"
    by simp
  have e: "parseExcludePattern ?E (opt_excludePattern sample_options) = Inr None"
    using sample_parseExcludePattern by (simp add: sample_options_def emptyOptions_def)
  from commonQuery_search_paths_replace_folders [OF p s e, of "[''/w/app'']"]
  show ?thesis
    by (simp add: sample_commonQuery expressionKeys_def)
qed

subsection \<open>The entry point \<open>file\<close> without options\<close>

lemma commonQuery_default_options:
  "commonQuery env folderResources None = commonQuery env folderResources (Some emptyOptions)"
  by (simp add: commonQuery_def)

text \<open>
  C10. Without options, \<open>file\<close> throws for every list of folder resources, while
  \<open>commonQuery\<close> behaves as it does for the empty options object; when
  \<open>commonQuery\<close> returns, the exception of \<open>file\<close> is the type error of reading
  \<open>options.filePattern\<close>.
\<close>

theorem file_without_options_throws:
  "isl (file env folderResources None) \<and>
   commonQuery env folderResources None = commonQuery env folderResources (Some emptyOptions) \<and>
   (\<forall>q. commonQuery env folderResources None = Inr q \<longrightarrow>
      file env folderResources None = Inl TypeError)"
  by (auto simp: file_def commonQuery_default_options split: sum.splits)

text \<open>
  The theorem for the folder \<open>/w/app\<close>: \<open>commonQuery\<close> returns a query and
  \<open>file\<close> throws the type error.
\<close>

theorem file_without_options_throws_witness:
  "commonQuery (sample_env FOLDER one_folder None) (Some [''/w/app'']) None =
     Inr \<lparr>folderQueries =
            [\<lparr>folder = ''/w/app'', fq_includePattern = None, fq_excludePattern = None,
              fileEncoding = None, disregardIgnoreFiles = Some False,
              disregardGlobalIgnoreFiles = Some False, ignoreSymlinks = Some False\<rparr>],
          usingSearchPaths = False, extraFileResources = None, excludePattern = None,
          includePattern = None, maxResults = None, useRipgrep = True\<rparr> \<and>
   file (sample_env FOLDER one_folder None) (Some [''/w/app'']) None = Inl TypeError"
proof -
  have c: "commonQuery (sample_env FOLDER one_folder None) (Some [''/w/app'']) None =
     Inr \<lparr>folderQueries =
            [\<lparr>folder = ''/w/app'', fq_includePattern = None, fq_excludePattern = None,
              fileEncoding = None, disregardIgnoreFiles = Some False,
              disregardGlobalIgnoreFiles = Some False, ignoreSymlinks = Some False\<rparr>],
          usingSearchPaths = False, extraFileResources = None, excludePattern = None,
          includePattern = None, maxResults = None, useRipgrep = True\<rparr>"
    by (simp add: commonQuery_def parseSearchPaths_def parseExcludePattern_def
        expandSearchPathPatterns_def groups_searchPaths_def segments_def splitGlobPattern_def
        exprSegments_def groups_exprSegments_def patternListToIExpression_def
        folderQueriesAndExcludes_def getFolderQueryForRoot_def getExcludesForFolder_def
        files_encoding_def emptyOptions_def sample_env_def sample_config_def)
  show ?thesis
    using c file_without_options_throws [of "sample_env FOLDER one_folder None" "Some [''/w/app'']"]
    by simp
qed

end
